theory Spec2Isabelle
  imports Main "HOL-Library.Word"
begin

unbundle bit_operations_syntax

section \<open>The QUIC socket of \<^verbatim>\<open>src/quic/node_quic_socket.cc\<close>\<close>

text \<open>
  A shallow embedding of the datagram dispatcher \<^verbatim>\<open>QuicSocket\<close>: the reserved-version
  hash, the demultiplexer \<^verbatim>\<open>OnReceive\<close>, the stateless responders and \<^verbatim>\<open>SendPacket\<close>.
  Bytes are \<open>8 word\<close>, \<^verbatim>\<open>uint32_t\<close> is \<open>32 word\<close>, buffers are byte lists.
\<close>

type_synonym byte = "8 word"
type_synonym bytes = "byte list"
type_synonym uint32 = "32 word"
type_synonym uint64 = "64 word"

text \<open>
  A \<^verbatim>\<open>sockaddr\<close> is modelled by its raw bytes, as many as
  \<^verbatim>\<open>SocketAddress::GetLength\<close> reports for it (that function lives in
  \<^verbatim>\<open>node_sockaddr-inl.h\<close>; the hash below walks exactly these bytes).
\<close>

type_synonym sockaddr = bytes

subsection \<open>GenerateReservedVersion\<close>

text \<open>The two \<^verbatim>\<open>for (; p != ep; ++p) { h ^= *p; h *= 0x01000193u; }\<close> loops.\<close>

fun fnv_loop :: "uint32 \<Rightarrow> bytes \<Rightarrow> uint32" where
  "fnv_loop h [] = h"
| "fnv_loop h (p # ps) = fnv_loop ((h XOR ucast p) * 0x01000193) ps"

text \<open>
  The four bytes of \<^verbatim>\<open>htonl(version)\<close> in memory order: network byte order puts the
  most significant byte at the lowest address, whatever the host's endianness.
\<close>

definition htonl_bytes :: "uint32 \<Rightarrow> bytes" where
  "htonl_bytes version =
     [ucast (drop_bit 24 version), ucast (drop_bit 16 version),
      ucast (drop_bit 8 version), ucast version]"

definition GenerateReservedVersion :: "sockaddr \<Rightarrow> uint32 \<Rightarrow> uint32" where
  "GenerateReservedVersion addr version =
     (let h0 = 0x811C9DC5;
          h1 = fnv_loop h0 addr;
          h2 = fnv_loop h1 (htonl_bytes version);
          h3 = h2 AND 0xf0f0f0f0;
          h4 = h3 OR 0x0a0a0a0a
      in h4)"

text \<open>
  The spec's words, on natural numbers: the 32-bit FNV-1a hash (offset basis
  \<open>0x811C9DC5\<close>, prime \<open>0x01000193\<close>, arithmetic modulo \<open>2^32\<close>) of the sockaddr bytes
  followed by the big-endian bytes of the version, masked to
  \<open>(h & 0xF0F0F0F0) | 0x0A0A0A0A\<close>.
\<close>

fun fnv1a_32_spec :: "nat \<Rightarrow> nat list \<Rightarrow> nat" where
  "fnv1a_32_spec h [] = h"
| "fnv1a_32_spec h (b # bs) = fnv1a_32_spec (((h XOR b) * 0x01000193) mod 2 ^ 32) bs"

definition big_endian_32_spec :: "nat \<Rightarrow> nat list" where
  "big_endian_32_spec v =
     [v div 2 ^ 24 mod 256, v div 2 ^ 16 mod 256, v div 2 ^ 8 mod 256, v mod 256]"

definition reserved_version_spec :: "nat list \<Rightarrow> nat \<Rightarrow> nat" where
  "reserved_version_spec a v =
     ((fnv1a_32_spec 0x811C9DC5 (a @ big_endian_32_spec v)) AND 0xF0F0F0F0) OR 0x0A0A0A0A"

subsection \<open>Constants of the QUIC library\<close>

text \<open>
  Modelled from the spec: the constants of \<^verbatim>\<open>ngtcp2.h\<close> and of the socket's own
  headers, which are not part of the source file. \<open>PROTO_VER\<close> is \<open>0x00000001\<close>,
  \<open>MAX_CID\<close> is 20, a stateless-reset token has 16 bytes, \<open>MAX_PKT\<close> is 1452,
  \<open>SCID_LEN\<close> is 16, and \<open>RANDLEN = 5 \<times> MIN_RESET_RANDLEN\<close> with
  \<open>MIN_RESET_LEN = 41 = RANDLEN + 16\<close>, so \<open>MIN_RESET_RANDLEN\<close> is 5. The two
  datagram limits handed to the encoders are the library's 1252 (IPv4) and 1232 (IPv6).
\<close>

definition NGTCP2_PROTO_VER :: uint32 where "NGTCP2_PROTO_VER = 0x00000001"
definition NGTCP2_MAX_CIDLEN :: nat where "NGTCP2_MAX_CIDLEN = 20"
definition NGTCP2_STATELESS_RESET_TOKENLEN :: nat where "NGTCP2_STATELESS_RESET_TOKENLEN = 16"
definition NGTCP2_MIN_STATELESS_RESET_RANDLEN :: nat where "NGTCP2_MIN_STATELESS_RESET_RANDLEN = 5"
definition NGTCP2_MAX_PKT_SIZE :: nat where "NGTCP2_MAX_PKT_SIZE = 1452"
definition NGTCP2_MAX_PKTLEN_IPV4 :: nat where "NGTCP2_MAX_PKTLEN_IPV4 = 1252"
definition NGTCP2_MAX_PKTLEN_IPV6 :: nat where "NGTCP2_MAX_PKTLEN_IPV6 = 1232"
definition kScidLen :: nat where "kScidLen = 16"

text \<open>
  Modelled from the spec: the two transport error codes handed to a new server session,
  \<open>NO_ERROR\<close> and \<open>SERVER_BUSY\<close>, with their QUIC values 0 and 2.
\<close>

definition NGTCP2_NO_ERROR :: uint64 where "NGTCP2_NO_ERROR = 0x0"
definition NGTCP2_SERVER_BUSY :: uint64 where "NGTCP2_SERVER_BUSY = 0x2"

text \<open>\<^verbatim>\<open>size_t\<close> is 64 bits wide: \<^verbatim>\<open>source_len - 1\<close> wraps at zero.\<close>

definition SIZE_MAX :: nat where "SIZE_MAX = 2 ^ 64 - 1"

text \<open>A positive \<^verbatim>\<open>ssize_t\<close> read as \<^verbatim>\<open>size_t\<close> or \<^verbatim>\<open>uint64_t\<close> keeps its value; a negative one wraps.\<close>

definition as_size_t :: "int \<Rightarrow> nat" where
  "as_size_t n = nat (n mod 2 ^ 64)"

definition size_t_pred :: "nat \<Rightarrow> nat" where
  "size_t_pred n = (if n = 0 then SIZE_MAX else n - 1)"

subsection \<open>Data\<close>

type_synonym cid = bytes
type_synonym session = nat

text \<open>
  What \<^verbatim>\<open>ngtcp2_pkt_decode_version_cid\<close> hands back: the version, the destination CID
  and the source CID, whose pointer is null (\<open>None\<close>) on a short header.
\<close>

record decoded =
  pversion :: uint32
  pdcid :: bytes
  pscid :: "bytes option"

definition pdcidlen :: "decoded \<Rightarrow> nat" where
  "pdcidlen d = length (pdcid d)"

definition pscidlen :: "decoded \<Rightarrow> nat" where
  "pscidlen d = (case pscid d of None \<Rightarrow> 0 | Some c \<Rightarrow> length c)"

text \<open>\<^verbatim>\<open>QuicCID scid(pscid, pscidlen)\<close>: a null pointer of length 0 is the empty CID.\<close>

definition QuicCID :: "bytes option \<Rightarrow> cid" where
  "QuicCID p = (case p of None \<Rightarrow> [] | Some c \<Rightarrow> c)"

datatype InitialPacketResult = PACKET_OK | PACKET_IGNORE | PACKET_RETRY | PACKET_VERSION

datatype pkt_type = NGTCP2_PKT_INITIAL | NGTCP2_PKT_0RTT | NGTCP2_PKT_HANDSHAKE | NGTCP2_PKT_RETRY

record pkt_hd =
  hd_type :: pkt_type
  hd_token :: bytes

text \<open>
  What an encoder was asked to write into a packet's buffer. The arguments are kept in
  the encoder's own parameter order: \<^verbatim>\<open>ngtcp2_pkt_write_version_negotiation(dest,
  destlen, unused_random, dcid, dcidlen, scid, scidlen, sv, nsv)\<close> writes its \<open>dcid\<close>
  argument as the packet's destination CID and its \<open>scid\<close> argument as the packet's
  source CID; \<^verbatim>\<open>ngtcp2_pkt_write_retry(dest, destlen, hd, ocid, token, tokenlen)\<close>
  takes both CIDs of the packet from \<open>hd\<close>.
\<close>

datatype packet_content =
    Unwritten
  | VersionNegotiation (vn_unused_random: byte) (vn_dcid: cid) (vn_scid: cid)
      (vn_versions: "uint32 list")
  | StatelessReset (sr_token: bytes) (sr_random: bytes)
  | Retry (rt_version: uint32) (rt_dcid: cid) (rt_scid: cid) (rt_ocid: cid) (rt_token: bytes)

record QuicPacket =
  diagnostic_label :: string
  pkt_length :: nat
  content :: packet_content

datatype abort = CHECK_failed string

text \<open>
  \<^verbatim>\<open>QuicPacket::QuicPacket(label, len)\<close> allocates \<open>len\<close> bytes and checks
  \<^verbatim>\<open>CHECK_LE(len, NGTCP2_MAX_PKT_SIZE)\<close>; a failed check aborts the process.
\<close>

definition QuicPacket_Create :: "string \<Rightarrow> nat \<Rightarrow> abort + QuicPacket" where
  "QuicPacket_Create label len =
     (if len \<le> NGTCP2_MAX_PKT_SIZE
      then Inr \<lparr>diagnostic_label = label, pkt_length = len, content = Unwritten\<rparr>
      else Inl (CHECK_failed ''CHECK_LE(len, NGTCP2_MAX_PKT_SIZE)''))"

text \<open>
  Modelled from the spec: \<^verbatim>\<open>QuicPacket::set_length\<close> is declared in the inline header,
  which is not part of the source file; the spec gives \<open>set_length(n)\<close> where
  \<open>n \<le> capacity\<close>, a checked precondition like the constructor's.
\<close>

definition set_length :: "nat \<Rightarrow> QuicPacket \<Rightarrow> abort + QuicPacket" where
  "set_length n p =
     (if n \<le> pkt_length p then Inr (p\<lparr>pkt_length := n\<rparr>)
      else Inl (CHECK_failed ''CHECK_LE(len, data_.size())''))"

text \<open>The arguments of \<^verbatim>\<open>QuicSession::CreateServer\<close> (the opaque session config left out).\<close>

record create_args =
  ca_dcid :: cid
  ca_local_addr :: sockaddr
  ca_remote_addr :: sockaddr
  ca_scid :: cid
  ca_ocid :: "cid option"
  ca_version :: uint32
  ca_alpn :: string
  ca_options :: uint32
  ca_initial_connection_close :: uint64
  ca_qlog :: bool

text \<open>
  Everything the socket does to its collaborators, in program order: debug output (the
  format string of each \<^verbatim>\<open>Debug\<close> call), listener callbacks, calls into sessions and
  datagrams handed to the preferred endpoint.
\<close>

datatype event =
    DebugMsg string
  | ListenerOnError int
  | ListenerOnSessionReady "session option"
  | SessionReceive session int bytes sockaddr
  | SessionCreateServer create_args
  | EndpointSend QuicPacket sockaddr

text \<open>
  The statistics touched by this file (the time stamps and the session counts are set
  elsewhere). The spec calls them monotonic counters: a counter is a natural number.
\<close>

record socket_stats =
  bytes_received :: nat
  bytes_sent :: nat
  packets_received :: nat
  packets_sent :: nat
  packets_ignored :: nat
  stateless_reset_count :: nat

record QuicSocket =
  server_listening :: bool
  server_busy :: bool
  stateless_reset_disabled :: bool
  validate_address :: bool
  validate_address_lru :: bool
  max_connections_per_host :: nat
  max_stateless_resets_per_host :: nat
  retry_token_expiration :: nat
  sessions :: "cid \<rightharpoonup> session"
  dcid_to_scid :: "cid \<rightharpoonup> cid"
  addr_counts :: "sockaddr \<rightharpoonup> nat"
  reset_counts :: "sockaddr \<rightharpoonup> nat"
  token_map :: "bytes \<rightharpoonup> session"
  validated_addrs :: "sockaddr list"
  token_secret :: bytes
  reset_token_secret :: bytes
  server_alpn :: string
  server_options :: uint32
  qlog :: bool
  preferred_endpoint :: bool
  send_wraps :: "(QuicPacket \<times> session option) list"
  stats :: socket_stats
  trace :: "event list"

text \<open>
  The collaborators while one datagram is processed: the random draws, the QUIC
  library's decoder and encoders (each encoder gives the byte count it returns), the
  session class and the UDP endpoint. \<open>endpoint_Send\<close> gives the status of
  \<^verbatim>\<open>preferred_endpoint_->Send\<close> and whether it created a send wrap through
  \<^verbatim>\<open>OnCreateSendWrap\<close>.
\<close>

record env =
  rx_loss_draw :: bool
  tx_loss_draw :: "QuicPacket \<Rightarrow> bool"
  EntropySource :: "nat \<Rightarrow> bytes"
  pkt_decode_version_cid :: "bytes \<Rightarrow> int \<Rightarrow> decoded option"
  pkt_write_version_negotiation :: "nat \<Rightarrow> byte \<Rightarrow> cid \<Rightarrow> cid \<Rightarrow> uint32 list \<Rightarrow> int"
  pkt_write_stateless_reset :: "nat \<Rightarrow> bytes \<Rightarrow> bytes \<Rightarrow> int"
  pkt_write_retry :: "nat \<Rightarrow> uint32 \<Rightarrow> cid \<Rightarrow> cid \<Rightarrow> cid \<Rightarrow> bytes \<Rightarrow> int"
  GenerateResetToken :: "bytes \<Rightarrow> cid \<Rightarrow> bytes"
  GenerateRetryToken :: "sockaddr \<Rightarrow> cid \<Rightarrow> bytes \<Rightarrow> bytes option"
  InvalidRetryToken :: "bytes \<Rightarrow> sockaddr \<Rightarrow> bytes \<Rightarrow> nat \<Rightarrow> bool \<times> cid"
  session_Accept :: "uint32 \<Rightarrow> bytes \<Rightarrow> int \<Rightarrow> InitialPacketResult \<times> pkt_hd"
  session_CreateServer :: "create_args \<Rightarrow> session option"
  session_Receive :: "session \<Rightarrow> bool"
  endpoint_Send :: "QuicPacket \<Rightarrow> sockaddr \<Rightarrow> int \<times> bool"

record datagram =
  dg_nread :: int
  dg_buf :: bytes
  dg_local_addr :: sockaddr
  dg_remote_addr :: sockaddr

type_synonym 'a result = "abort + 'a \<times> QuicSocket"

subsection \<open>Small operations of the socket\<close>

definition Debug :: "string \<Rightarrow> QuicSocket \<Rightarrow> QuicSocket" where
  "Debug msg s = s\<lparr>trace := trace s @ [DebugMsg msg]\<rparr>"

definition emit :: "event \<Rightarrow> QuicSocket \<Rightarrow> QuicSocket" where
  "emit e s = s\<lparr>trace := trace s @ [e]\<rparr>"

text \<open>
  Modelled from the spec: \<^verbatim>\<open>IncrementSocketStat(amount, &socket_stats_,
  &socket_stats::member)\<close> is declared in a header outside the source file; the
  statistics being monotonic counters, it adds the amount to the member. The member
  pointer is the record's update function for that field.
\<close>

definition IncrementSocketStat ::
  "nat \<Rightarrow> ((nat \<Rightarrow> nat) \<Rightarrow> socket_stats \<Rightarrow> socket_stats) \<Rightarrow> QuicSocket \<Rightarrow> QuicSocket" where
  "IncrementSocketStat amount member s = s\<lparr>stats := member (\<lambda>v. v + amount) (stats s)\<rparr>"

text \<open>
  Modelled from the spec: the per-peer counters are inline members declared outside
  the source file. \<open>current_conns(peer)\<close> and \<open>current_resets(peer)\<close> read a map, a
  missing entry counting as 0; \<open>inc_resets(peer)\<close> adds one.
\<close>

definition GetCurrentSocketAddressCounter :: "sockaddr \<Rightarrow> QuicSocket \<Rightarrow> nat" where
  "GetCurrentSocketAddressCounter addr s = (case addr_counts s addr of None \<Rightarrow> 0 | Some n \<Rightarrow> n)"

definition GetCurrentStatelessResetCounter :: "sockaddr \<Rightarrow> QuicSocket \<Rightarrow> nat" where
  "GetCurrentStatelessResetCounter addr s = (case reset_counts s addr of None \<Rightarrow> 0 | Some n \<Rightarrow> n)"

definition IncrementStatelessResetCounter :: "sockaddr \<Rightarrow> QuicSocket \<Rightarrow> QuicSocket" where
  "IncrementStatelessResetCounter addr s =
     s\<lparr>reset_counts := (reset_counts s)(addr \<mapsto> GetCurrentStatelessResetCounter addr s + 1)\<rparr>"

text \<open>
  Modelled from the spec: the validated-address cache, also declared outside the source
  file. \<open>is_validated\<close> queries the LRU without promoting and \<open>set_validated\<close>
  inserts or promotes, keeping at most \<open>VALIDATED_ADDR_LRU\<close> (100) entries; both act
  only when the \<open>validate_address_lru\<close> option is set, as the comment at the call says.
\<close>

definition MAX_VALIDATE_ADDRESS_LRU :: nat where "MAX_VALIDATE_ADDRESS_LRU = 100"

definition is_validated_address :: "sockaddr \<Rightarrow> QuicSocket \<Rightarrow> bool" where
  "is_validated_address addr s = (validate_address_lru s \<and> List.member (validated_addrs s) addr)"

definition set_validated_address :: "sockaddr \<Rightarrow> QuicSocket \<Rightarrow> QuicSocket" where
  "set_validated_address addr s =
     (if validate_address_lru s
      then (let l = removeAll addr (validated_addrs s) @ [addr]
            in s\<lparr>validated_addrs := drop (length l - MAX_VALIDATE_ADDRESS_LRU) l\<rparr>)
      else s)"

definition IsShortHeader :: "uint32 \<Rightarrow> bytes option \<Rightarrow> nat \<Rightarrow> bool" where
  "IsShortHeader version pscid' pscidlen' =
     (version = NGTCP2_PROTO_VER \<and> pscid' = None \<and> pscidlen' = 0)"

subsection \<open>FindSession\<close>

definition FindSession :: "cid \<Rightarrow> QuicSocket \<Rightarrow> abort + session option" where
  "FindSession c s =
     (case sessions s c of
        None \<Rightarrow>
          (case dcid_to_scid s c of
             None \<Rightarrow> Inr None
           | Some scid \<Rightarrow>
               (case sessions s scid of
                  None \<Rightarrow> Inl (CHECK_failed ''CHECK_NE(session_it, std::end(sessions_))'')
                | Some session \<Rightarrow> Inr (Some session)))
      | Some session \<Rightarrow> Inr (Some session))"

subsection \<open>Calling a session\<close>

text \<open>
  \<^verbatim>\<open>session->Receive(nread, data, local_addr, remote_addr, flags)\<close>: the call is
  recorded and the collaborator's answer returned. The \<open>flags\<close> word is only passed
  through and is left out.
\<close>

definition Receive :: "env \<Rightarrow> session \<Rightarrow> int \<Rightarrow> bytes \<Rightarrow> sockaddr \<Rightarrow> QuicSocket \<Rightarrow> bool \<times> QuicSocket" where
  "Receive e session nread data remote_addr s =
     (session_Receive e session, emit (SessionReceive session nread data remote_addr) s)"

subsection \<open>MaybeStatelessReset\<close>

definition MaybeStatelessReset ::
  "env \<Rightarrow> cid \<Rightarrow> cid \<Rightarrow> int \<Rightarrow> bytes \<Rightarrow> sockaddr \<Rightarrow> QuicSocket \<Rightarrow> bool \<times> QuicSocket" where
  "MaybeStatelessReset e dcid scid nread data remote_addr s =
     (if stateless_reset_disabled s \<or> nread < 16 then (False, s)
      else
        (let possible_token =
               take NGTCP2_STATELESS_RESET_TOKENLEN
                 (drop (nat nread - NGTCP2_STATELESS_RESET_TOKENLEN) data)
         in case token_map s possible_token of
              None \<Rightarrow> (False, s)
            | Some session \<Rightarrow>
                Receive e session nread data remote_addr
                  (Debug ''Received a stateless reset token'' s)))"

subsection \<open>OnSend and SendPacket\<close>

definition OnSend :: "int \<Rightarrow> QuicPacket \<Rightarrow> QuicSocket \<Rightarrow> QuicSocket" where
  "OnSend status packet s =
     (if status = 0
      then IncrementSocketStat 1 packets_sent_update
             (IncrementSocketStat (pkt_length packet) bytes_sent_update
                (Debug ''Sent %PRIu64 bytes (label: %s)'' s))
      else Debug ''Failed to send %PRIu64 bytes (status: %d, label: %s)'' s)"

definition SendPacket ::
  "env \<Rightarrow> sockaddr \<Rightarrow> sockaddr \<Rightarrow> QuicPacket \<Rightarrow> session option \<Rightarrow> QuicSocket \<Rightarrow> int result" where
  "SendPacket e local_addr remote_addr packet session s =
     (if pkt_length packet = 0 then Inr (0, s)
      else
        (let s1 = Debug ''Sending %PRIu64 bytes to %s:%d from %s:%d (label: %s)'' s in
         if tx_loss_draw e packet
         then Inr (0, Debug ''Simulating transmitted packet loss.'' s1)
         else if \<not> preferred_endpoint s1
         then Inl (CHECK_failed ''CHECK_NOT_NULL(preferred_endpoint_)'')
         else
           (let err = fst (endpoint_Send e packet remote_addr);
                wrap_created = snd (endpoint_Send e packet remote_addr);
                s2 = emit (EndpointSend packet remote_addr) s1
            in if err \<noteq> 0
               then (let err' = (if err > 0 then 0 else err)
                     in Inr (err', OnSend err' packet s2))
               else if \<not> wrap_created
               then Inl (CHECK_failed ''CHECK_NOT_NULL(last_created_send_wrap_)'')
               else Inr (err, s2\<lparr>send_wraps := send_wraps s2 @ [(packet, session)]\<rparr>))))"

subsection \<open>SendVersionNegotiation\<close>

text \<open>\<^verbatim>\<open>EntropySource(&unused_random, 1)\<close>: the one byte drawn.\<close>

definition entropy_byte :: "env \<Rightarrow> byte" where
  "entropy_byte e = (case EntropySource e 1 of [] \<Rightarrow> 0 | b # bs \<Rightarrow> b)"

definition SendVersionNegotiation ::
  "env \<Rightarrow> uint32 \<Rightarrow> cid \<Rightarrow> cid \<Rightarrow> sockaddr \<Rightarrow> sockaddr \<Rightarrow> QuicSocket \<Rightarrow> unit result" where
  "SendVersionNegotiation e version dcid scid local_addr remote_addr s =
     (let sv = [GenerateReservedVersion remote_addr version, NGTCP2_PROTO_VER];
          unused_random = entropy_byte e;
          pktlen = length dcid + length scid + 4 * length sv + 7
      in case QuicPacket_Create ''version negotiation'' pktlen of
           Inl a \<Rightarrow> Inl a
         | Inr packet \<Rightarrow>
             (let nwrite = pkt_write_version_negotiation e NGTCP2_MAX_PKTLEN_IPV6
                             unused_random dcid scid sv;
                  written = packet\<lparr>content := VersionNegotiation unused_random dcid scid sv\<rparr>
              in if nwrite \<le> 0 then Inr ((), s)
                 else
                   (case set_length (nat nwrite) written of
                      Inl a \<Rightarrow> Inl a
                    | Inr packet' \<Rightarrow>
                        (case SendPacket e local_addr remote_addr packet' None s of
                           Inl a \<Rightarrow> Inl a
                         | Inr (err, s') \<Rightarrow> Inr ((), s')))))"

subsection \<open>SendStatelessReset\<close>

definition kRandlen :: nat where
  "kRandlen = NGTCP2_MIN_STATELESS_RESET_RANDLEN * 5"

definition kMinStatelessResetLen :: nat where
  "kMinStatelessResetLen = 41"

definition SendStatelessReset ::
  "env \<Rightarrow> cid \<Rightarrow> sockaddr \<Rightarrow> sockaddr \<Rightarrow> nat \<Rightarrow> QuicSocket \<Rightarrow> bool result" where
  "SendStatelessReset e c local_addr remote_addr source_len s =
     (if stateless_reset_disabled s then Inr (False, s)
      else if GetCurrentStatelessResetCounter remote_addr s \<ge> max_stateless_resets_per_host s
      then Inr (False, s)
      else
        (let pktlen = size_t_pred source_len in
         if pktlen < kMinStatelessResetLen then Inr (False, s)
         else
           (let token = GenerateResetToken e (reset_token_secret s) c;
                random = EntropySource e kRandlen
            in case QuicPacket_Create ''stateless reset'' pktlen of
                 Inl a \<Rightarrow> Inl a
               | Inr packet \<Rightarrow>
                   (let nwrite = pkt_write_stateless_reset e NGTCP2_MAX_PKTLEN_IPV4 token random;
                        written = packet\<lparr>content := StatelessReset token random\<rparr>
                    in if nwrite < int kMinStatelessResetLen then Inr (False, s)
                       else
                         (case set_length (nat nwrite) written of
                            Inl a \<Rightarrow> Inl a
                          | Inr packet' \<Rightarrow>
                              (case SendPacket e local_addr remote_addr packet' None
                                      (IncrementStatelessResetCounter remote_addr s) of
                                 Inl a \<Rightarrow> Inl a
                               | Inr (err, s') \<Rightarrow> Inr (err = 0, s')))))))"

subsection \<open>SendRetry\<close>

definition SendRetry ::
  "env \<Rightarrow> uint32 \<Rightarrow> cid \<Rightarrow> cid \<Rightarrow> sockaddr \<Rightarrow> sockaddr \<Rightarrow> QuicSocket \<Rightarrow> bool result" where
  "SendRetry e version dcid scid local_addr remote_addr s =
     (case GenerateRetryToken e remote_addr dcid (token_secret s) of
        None \<Rightarrow> Inr (False, s)
      | Some token \<Rightarrow>
          (let hd_dcid = scid;
               hd_scid = take kScidLen (EntropySource e kScidLen);
               pktlen = length token + 2 * NGTCP2_MAX_CIDLEN + length scid + 8
           in if \<not> pktlen \<le> NGTCP2_MAX_PKT_SIZE
              then Inl (CHECK_failed ''CHECK_LE(pktlen, NGTCP2_MAX_PKT_SIZE)'')
              else
                (case QuicPacket_Create ''retry'' pktlen of
                   Inl a \<Rightarrow> Inl a
                 | Inr packet \<Rightarrow>
                     (let nwrite = pkt_write_retry e NGTCP2_MAX_PKTLEN_IPV4 version
                                     hd_dcid hd_scid dcid token;
                          written = packet\<lparr>content := Retry version hd_dcid hd_scid dcid token\<rparr>
                      in if nwrite \<le> 0 then Inr (False, s)
                         else
                           (case set_length (nat nwrite) written of
                              Inl a \<Rightarrow> Inl a
                            | Inr packet' \<Rightarrow>
                                (case SendPacket e local_addr remote_addr packet' None s of
                                   Inl a \<Rightarrow> Inl a
                                 | Inr (err, s') \<Rightarrow> Inr (err = 0, s')))))))"

subsection \<open>AcceptInitialPacket\<close>

text \<open>
  Lines 729--743: the early close code, \<^verbatim>\<open>initial_connection_close\<close>, with the debug
  output of the two tests.
\<close>

definition initial_connection_close :: "sockaddr \<Rightarrow> QuicSocket \<Rightarrow> uint64 \<times> QuicSocket" where
  "initial_connection_close remote_addr s =
     (let c0 = NGTCP2_NO_ERROR;
          c1 = (if server_busy s then NGTCP2_SERVER_BUSY else c0);
          s1 = (if server_busy s then Debug ''QuicSocket is busy'' s else s);
          exceeded = (GetCurrentSocketAddressCounter remote_addr s1 \<ge> max_connections_per_host s1);
          c2 = (if exceeded then NGTCP2_SERVER_BUSY else c1);
          s2 = (if exceeded then Debug ''Connection count for address exceeded'' s1 else s1)
      in (c2, s2))"

text \<open>
  Lines 782--799: the server session is asked for, the listener is told, the session is
  returned. \<^verbatim>\<open>CreateServer\<close> hands back an empty pointer when it cannot build a session.
\<close>

definition create_and_announce ::
  "env \<Rightarrow> uint32 \<Rightarrow> cid \<Rightarrow> cid \<Rightarrow> sockaddr \<Rightarrow> sockaddr \<Rightarrow> cid option \<Rightarrow> uint64 \<Rightarrow> QuicSocket
     \<Rightarrow> session option result" where
  "create_and_announce e version dcid scid local_addr remote_addr ocid_ptr close_code s =
     (let args = \<lparr>ca_dcid = dcid, ca_local_addr = local_addr, ca_remote_addr = remote_addr,
                   ca_scid = scid, ca_ocid = ocid_ptr, ca_version = version,
                   ca_alpn = server_alpn s, ca_options = server_options s,
                   ca_initial_connection_close = close_code, ca_qlog = qlog s\<rparr>;
          session = session_CreateServer e args;
          s1 = emit (SessionCreateServer args) s;
          s2 = emit (ListenerOnSessionReady session) s1
      in Inr (session, s2))"

text \<open>Lines 729--799: what follows the verdict \<^verbatim>\<open>PACKET_OK\<close>.\<close>

definition accept_ok ::
  "env \<Rightarrow> pkt_hd \<Rightarrow> uint32 \<Rightarrow> cid \<Rightarrow> cid \<Rightarrow> sockaddr \<Rightarrow> sockaddr \<Rightarrow> QuicSocket
     \<Rightarrow> session option result" where
  "accept_ok e hdr version dcid scid local_addr remote_addr s =
     (let close_code = fst (initial_connection_close remote_addr s);
          s2 = snd (initial_connection_close remote_addr s)
      in if close_code = NGTCP2_NO_ERROR \<and> validate_address s2 \<and> hd_type hdr = NGTCP2_PKT_INITIAL
         then
           (if \<not> is_validated_address remote_addr s2
            then
              (let s3 = Debug ''Performing explicit address validation.'' s2;
                   verdict = InvalidRetryToken e (hd_token hdr) remote_addr (token_secret s3)
                               (retry_token_expiration s3)
               in if fst verdict
                  then
                    (case SendRetry e version dcid scid local_addr remote_addr
                            (Debug ''A valid retry token was not found. Sending retry.'' s3) of
                       Inl a \<Rightarrow> Inl a
                     | Inr (sent, s4) \<Rightarrow> Inr (None, s4))
                  else
                    create_and_announce e version dcid scid local_addr remote_addr
                      (Some (snd verdict)) close_code
                      (set_validated_address remote_addr
                         (Debug ''A valid retry token was found. Continuing.'' s3)))
            else
              create_and_announce e version dcid scid local_addr remote_addr None close_code
                (Debug ''Skipping validation for recently validated address.'' s2))
         else create_and_announce e version dcid scid local_addr remote_addr None close_code s2)"

definition AcceptInitialPacket ::
  "env \<Rightarrow> uint32 \<Rightarrow> cid \<Rightarrow> cid \<Rightarrow> int \<Rightarrow> bytes \<Rightarrow> sockaddr \<Rightarrow> sockaddr \<Rightarrow> QuicSocket
     \<Rightarrow> session option result" where
  "AcceptInitialPacket e version dcid scid nread data local_addr remote_addr s =
     (if \<not> server_listening s then Inr (None, Debug ''QuicSocket is not listening'' s)
      else
        (case fst (session_Accept e version data nread) of
           PACKET_VERSION \<Rightarrow>
             (case SendVersionNegotiation e version dcid scid local_addr remote_addr s of
                Inl a \<Rightarrow> Inl a
              | Inr (u, s1) \<Rightarrow> Inr (None, s1))
         | PACKET_RETRY \<Rightarrow>
             (case SendRetry e version dcid scid local_addr remote_addr
                     (Debug ''0RTT Packet. Sending retry.'' s) of
                Inl a \<Rightarrow> Inl a
              | Inr (sent, s1) \<Rightarrow> Inr (None, s1))
         | PACKET_IGNORE \<Rightarrow> Inr (None, s)
         | PACKET_OK \<Rightarrow>
             accept_ok e (snd (session_Accept e version data nread)) version dcid scid
               local_addr remote_addr s))"

subsection \<open>OnReceive\<close>

text \<open>Lines 542--551: the datagram is given to the session and charged.\<close>

definition deliver ::
  "env \<Rightarrow> session \<Rightarrow> int \<Rightarrow> bytes \<Rightarrow> sockaddr \<Rightarrow> QuicSocket \<Rightarrow> QuicSocket" where
  "deliver e session nread data remote_addr s =
     (let r = Receive e session nread data remote_addr s
      in if \<not> fst r then IncrementSocketStat 1 packets_ignored_update (snd r)
         else IncrementSocketStat 1 packets_received_update (snd r))"

text \<open>Lines 505--539 and on: the accept path, taken when no session handled the datagram.\<close>

definition accept_path ::
  "env \<Rightarrow> bool \<Rightarrow> uint32 \<Rightarrow> cid \<Rightarrow> cid \<Rightarrow> int \<Rightarrow> bytes \<Rightarrow> sockaddr \<Rightarrow> sockaddr \<Rightarrow> QuicSocket
     \<Rightarrow> abort + QuicSocket" where
  "accept_path e is_short_header version dcid scid nread data local_addr remote_addr s =
     (case AcceptInitialPacket e version dcid scid nread data local_addr remote_addr s of
        Inl a \<Rightarrow> Inl a
      | Inr (None, s1) \<Rightarrow>
          (let s2 = Debug ''Unable to create a new server QuicSession.'' s1 in
           if is_short_header
           then
             (case SendStatelessReset e dcid local_addr remote_addr (as_size_t nread) s2 of
                Inl a \<Rightarrow> Inl a
              | Inr (True, s3) \<Rightarrow>
                  Inr (IncrementSocketStat 1 stateless_reset_count_update
                         (Debug ''Sent stateless reset'' s3))
              | Inr (False, s3) \<Rightarrow> Inr (IncrementSocketStat 1 packets_ignored_update s3))
           else Inr (IncrementSocketStat 1 packets_ignored_update s2))
      | Inr (Some session, s1) \<Rightarrow> Inr (deliver e session nread data remote_addr s1))"

text \<open>Lines 487--540: no session is bound to the destination CID.\<close>

definition no_session ::
  "env \<Rightarrow> decoded \<Rightarrow> int \<Rightarrow> bytes \<Rightarrow> sockaddr \<Rightarrow> sockaddr \<Rightarrow> QuicSocket \<Rightarrow> abort + QuicSocket" where
  "no_session e d nread data local_addr remote_addr s =
     (let dcid = pdcid d;
          scid = QuicCID (pscid d);
          s1 = Debug ''There is no existing session for dcid %s'' s;
          is_short_header = IsShortHeader (pversion d) (pscid d) (pscidlen d)
      in if is_short_header
         then
           (let m = MaybeStatelessReset e dcid scid nread data remote_addr s1
            in if fst m then Inr (Debug ''Handled stateless reset'' (snd m))
               else accept_path e is_short_header (pversion d) dcid scid nread data
                      local_addr remote_addr (snd m))
         else accept_path e is_short_header (pversion d) dcid scid nread data
                local_addr remote_addr s1)"

definition OnReceive ::
  "env \<Rightarrow> int \<Rightarrow> bytes \<Rightarrow> sockaddr \<Rightarrow> sockaddr \<Rightarrow> QuicSocket \<Rightarrow> abort + QuicSocket" where
  "OnReceive e nread buf local_addr remote_addr s =
     (let s0 = Debug ''Receiving %d bytes from the UDP socket.'' s in
      if rx_loss_draw e then Inr (Debug ''Simulating received packet loss.'' s0)
      else
        (let s1 = IncrementSocketStat (as_size_t nread) bytes_received_update s0
         in case pkt_decode_version_cid e buf nread of
              None \<Rightarrow> Inr (IncrementSocketStat 1 packets_ignored_update s1)
            | Some d \<Rightarrow>
                if pdcidlen d > NGTCP2_MAX_CIDLEN \<or> pscidlen d > NGTCP2_MAX_CIDLEN
                then Inr (IncrementSocketStat 1 packets_ignored_update s1)
                else
                  (let s2 = Debug ''Received a QUIC packet for dcid %s'' s1
                   in case FindSession (pdcid d) s2 of
                        Inl a \<Rightarrow> Inl a
                      | Inr None \<Rightarrow> no_session e d nread buf local_addr remote_addr s2
                      | Inr (Some session) \<Rightarrow>
                          Inr (deliver e session nread buf remote_addr s2))))"

subsection \<open>The endpoint's upcall and runs of the socket\<close>

definition OnError :: "int \<Rightarrow> QuicSocket \<Rightarrow> QuicSocket" where
  "OnError error s =
     emit (ListenerOnError error)
       (Debug ''Reading data from UDP socket failed. Error %PRId64'' s)"

text \<open>\<^verbatim>\<open>QuicEndpoint::OnRecv\<close>: only a datagram with \<open>nread > 0\<close> reaches \<open>OnReceive\<close>.\<close>

definition OnRecv :: "env \<Rightarrow> datagram \<Rightarrow> QuicSocket \<Rightarrow> abort + QuicSocket" where
  "OnRecv e dg s =
     (if dg_nread dg \<le> 0
      then (if dg_nread dg < 0 then Inr (OnError (dg_nread dg) s) else Inr s)
      else OnReceive e (dg_nread dg) (dg_buf dg) (dg_local_addr dg) (dg_remote_addr dg) s)"

text \<open>
  \<^verbatim>\<open>OnSendDone(wrap, status)\<close>: a queued send completes; the wrap is taken back from
  the endpoint and its packet reported to \<open>OnSend\<close>. The wrap is named by its place
  among those in flight (the endpoint never completes a wrap it was not given).
\<close>

definition OnSendDone :: "nat \<Rightarrow> int \<Rightarrow> QuicSocket \<Rightarrow> QuicSocket" where
  "OnSendDone i status s =
     (if i < length (send_wraps s)
      then OnSend status (fst (send_wraps s ! i))
             (s\<lparr>send_wraps := take i (send_wraps s) @ drop (Suc i) (send_wraps s)\<rparr>)
      else s)"

text \<open>
  What happens to a socket over time: datagrams arrive, queued sends complete, and code
  outside this file changes the session tables (sessions registering and retiring
  their CIDs, tokens and peer counts) and the flags (the host's \<open>listen\<close>, \<open>stop_listening\<close>,
  \<open>set_server_busy\<close>, \<open>toggle_stateless_reset\<close>). These outside changes are
  over-approximated by replacing the tables and flags with arbitrary ones; they never
  touch the reset counters, the limits or the packet statistics.
\<close>

datatype socket_op =
    Deliver env datagram
  | SendDone nat int
  | SessionTables "cid \<rightharpoonup> session" "cid \<rightharpoonup> cid" "bytes \<rightharpoonup> session" "sockaddr \<rightharpoonup> nat"
  | HostFlags bool bool bool

definition apply_op :: "socket_op \<Rightarrow> QuicSocket \<Rightarrow> abort + QuicSocket" where
  "apply_op op s =
     (case op of
        Deliver e dg \<Rightarrow> OnRecv e dg s
      | SendDone i status \<Rightarrow> Inr (OnSendDone i status s)
      | SessionTables ss al tm ac \<Rightarrow>
          Inr (s\<lparr>sessions := ss, dcid_to_scid := al, token_map := tm, addr_counts := ac\<rparr>)
      | HostFlags listening busy no_reset \<Rightarrow>
          Inr (s\<lparr>server_listening := listening, server_busy := busy,
                 stateless_reset_disabled := no_reset\<rparr>))"

fun run :: "QuicSocket \<Rightarrow> socket_op list \<Rightarrow> abort + QuicSocket" where
  "run s [] = Inr s"
| "run s (op # ops) = (case apply_op op s of Inl a \<Rightarrow> Inl a | Inr s' \<Rightarrow> run s' ops)"

subsection \<open>Observations\<close>

text \<open>The datagrams handed to the preferred endpoint so far, oldest first.\<close>

fun sent_packets :: "event list \<Rightarrow> QuicPacket list" where
  "sent_packets [] = []"
| "sent_packets (EndpointSend p a # es) = p # sent_packets es"
| "sent_packets (DebugMsg m # es) = sent_packets es"
| "sent_packets (ListenerOnError c # es) = sent_packets es"
| "sent_packets (ListenerOnSessionReady x # es) = sent_packets es"
| "sent_packets (SessionReceive x n d a # es) = sent_packets es"
| "sent_packets (SessionCreateServer c # es) = sent_packets es"

text \<open>The datagrams that \<open>MaybeStatelessReset\<close> handled: one debug line each.\<close>

definition handled_resets :: "QuicSocket \<Rightarrow> nat" where
  "handled_resets s = count_list (trace s) (DebugMsg ''Handled stateless reset'')"

text \<open>The datagrams of a run that reach \<open>OnReceive\<close> and survive the rx-loss draw.\<close>

fun delivered :: "socket_op list \<Rightarrow> nat" where
  "delivered [] = 0"
| "delivered (Deliver e dg # ops) =
     (if dg_nread dg > 0 \<and> \<not> rx_loss_draw e then 1 else 0) + delivered ops"
| "delivered (SendDone i status # ops) = delivered ops"
| "delivered (SessionTables ss al tm ac # ops) = delivered ops"
| "delivered (HostFlags l b r # ops) = delivered ops"

text \<open>The packet counters of the claim on accounting, and the full account.\<close>

definition charged :: "QuicSocket \<Rightarrow> nat" where
  "charged s = packets_received (stats s) + packets_ignored (stats s)"

definition accounted :: "QuicSocket \<Rightarrow> nat" where
  "accounted s =
     packets_received (stats s) + packets_ignored (stats s) + stateless_reset_count (stats s)
       + handled_resets s"

text \<open>The sessions the listener was told about, and the sessions asked for.\<close>

fun announced :: "event list \<Rightarrow> session option list" where
  "announced [] = []"
| "announced (ListenerOnSessionReady x # es) = x # announced es"
| "announced (DebugMsg m # es) = announced es"
| "announced (ListenerOnError c # es) = announced es"
| "announced (SessionReceive x n d a # es) = announced es"
| "announced (SessionCreateServer c # es) = announced es"
| "announced (EndpointSend p a # es) = announced es"

fun created :: "event list \<Rightarrow> create_args list" where
  "created [] = []"
| "created (SessionCreateServer c # es) = c # created es"
| "created (DebugMsg m # es) = created es"
| "created (ListenerOnError c # es) = created es"
| "created (ListenerOnSessionReady x # es) = created es"
| "created (SessionReceive x n d a # es) = created es"
| "created (EndpointSend p a # es) = created es"

text \<open>What is seen of an outcome: nothing after an abort.\<close>

definition observe :: "(QuicSocket \<Rightarrow> 'a) \<Rightarrow> abort + QuicSocket \<Rightarrow> 'a option" where
  "observe f r = (case r of Inl a \<Rightarrow> None | Inr s \<Rightarrow> Some (f s))"

definition observe_result :: "(QuicSocket \<Rightarrow> 'a) \<Rightarrow> 'b result \<Rightarrow> ('b \<times> 'a) option" where
  "observe_result f r = (case r of Inl a \<Rightarrow> None | Inr (x, s) \<Rightarrow> Some (x, f s))"

text \<open>Frames: what a step leaves alone.\<close>

definition same_charges :: "QuicSocket \<Rightarrow> QuicSocket \<Rightarrow> bool" where
  "same_charges s s' \<longleftrightarrow>
     packets_received (stats s') = packets_received (stats s) \<and>
     packets_ignored (stats s') = packets_ignored (stats s) \<and>
     stateless_reset_count (stats s') = stateless_reset_count (stats s) \<and>
     handled_resets s' = handled_resets s"

definition same_resets :: "QuicSocket \<Rightarrow> QuicSocket \<Rightarrow> bool" where
  "same_resets s s' \<longleftrightarrow>
     reset_counts s' = reset_counts s \<and>
     max_stateless_resets_per_host s' = max_stateless_resets_per_host s"

definition same_created :: "QuicSocket \<Rightarrow> QuicSocket \<Rightarrow> bool" where
  "same_created s s' \<longleftrightarrow> created (trace s') = created (trace s)"

text \<open>The invariant on the reset counters, for a cap \<open>m\<close>.\<close>

definition resets_within :: "nat \<Rightarrow> QuicSocket \<Rightarrow> bool" where
  "resets_within m s \<longleftrightarrow>
     max_stateless_resets_per_host s = m \<and>
     (\<forall>p. GetCurrentStatelessResetCounter p s \<le> m)"

subsection \<open>The constructor\<close>

text \<open>
  Lines 239--291. The two option bits are given as booleans and the default ALPN
  (\<^verbatim>\<open>NGTCP2_ALPN_H3\<close>) as a parameter; the secrets come from the entropy source unless
  a reset secret is supplied. A new socket has no endpoint and does not listen.
\<close>

definition kTokenSecretLen :: nat where "kTokenSecretLen = 16"

definition new_QuicSocket ::
  "env \<Rightarrow> nat \<Rightarrow> nat \<Rightarrow> nat \<Rightarrow> bool \<Rightarrow> bool \<Rightarrow> bool \<Rightarrow> bytes option \<Rightarrow> bool \<Rightarrow> string
     \<Rightarrow> QuicSocket" where
  "new_QuicSocket e retry_expiration max_connections max_resets opt_validate opt_lru qlog_enabled
      session_reset_secret disable_stateless_reset alpn_h3 =
     \<lparr>server_listening = False,
      server_busy = False,
      stateless_reset_disabled = disable_stateless_reset,
      validate_address = opt_validate,
      validate_address_lru = opt_lru,
      max_connections_per_host = max_connections,
      max_stateless_resets_per_host = max_resets,
      retry_token_expiration = retry_expiration,
      sessions = Map.empty,
      dcid_to_scid = Map.empty,
      addr_counts = Map.empty,
      reset_counts = Map.empty,
      token_map = Map.empty,
      validated_addrs = [],
      token_secret = EntropySource e kTokenSecretLen,
      reset_token_secret =
        (case session_reset_secret of
           Some secret \<Rightarrow> take NGTCP2_STATELESS_RESET_TOKENLEN secret
         | None \<Rightarrow> EntropySource e NGTCP2_STATELESS_RESET_TOKENLEN),
      server_alpn = alpn_h3,
      server_options = 0,
      qlog = qlog_enabled,
      preferred_endpoint = False,
      send_wraps = [],
      stats = \<lparr>bytes_received = 0, bytes_sent = 0, packets_received = 0, packets_sent = 0,
                packets_ignored = 0, stateless_reset_count = 0\<rparr>,
      trace = [DebugMsg ''New QuicSocket created.'']\<rparr>"

subsection \<open>Concrete sockets, collaborators and datagrams\<close>

text \<open>Two IPv4 socket addresses (family, port, address, padding): the peer and the host.\<close>

definition peer_addr :: sockaddr where
  "peer_addr = [2, 0, 0x11, 0x51, 192, 0, 2, 7, 0, 0, 0, 0, 0, 0, 0, 0]"

definition host_addr :: sockaddr where
  "host_addr = [2, 0, 0x01, 0xBB, 192, 0, 2, 1, 0, 0, 0, 0, 0, 0, 0, 0]"

text \<open>
  Collaborators that behave: nothing is lost, the endpoint queues every datagram, the
  session class accepts and builds session 1, and sessions process what they are given.
  The encoders answer with the sizes of the QUIC wire format: a version negotiation
  packet has 7 bytes around the two CIDs and 4 bytes per version; a stateless reset is
  the random prefix it is handed followed by the 16-byte token (25 + 16 = 41 bytes for
  the prefix \<open>SendStatelessReset\<close> draws). Its decoder rejects every datagram; the
  scenarios below replace it.
\<close>

definition example_env :: env where
  "example_env =
     \<lparr>rx_loss_draw = False,
      tx_loss_draw = (\<lambda>p. False),
      EntropySource = (\<lambda>n. replicate n 0x5A),
      pkt_decode_version_cid = (\<lambda>buf n. None),
      pkt_write_version_negotiation =
        (\<lambda>destlen unused d c sv.
           if destlen < 7 + length d + length c + 4 * length sv then - 203
           else int (7 + length d + length c + 4 * length sv)),
      pkt_write_stateless_reset =
        (\<lambda>destlen token random.
           if destlen < 5 + 16 then - 203
           else int (min (destlen - 16) (length random) + 16)),
      pkt_write_retry =
        (\<lambda>destlen v d c oc token. int (7 + length d + length c + length oc + length token)),
      GenerateResetToken = (\<lambda>secret c. replicate 16 0xC3),
      GenerateRetryToken = (\<lambda>a c secret. Some (replicate 8 0x77)),
      InvalidRetryToken = (\<lambda>token a secret ttl. (token \<noteq> replicate 8 0x77, [])),
      session_Accept =
        (\<lambda>v buf n. (PACKET_OK, \<lparr>hd_type = NGTCP2_PKT_INITIAL, hd_token = []\<rparr>)),
      session_CreateServer = (\<lambda>args. Some 1),
      session_Receive = (\<lambda>x. True),
      endpoint_Send = (\<lambda>p a. (0, True))\<rparr>"

text \<open>
  A socket as constructed (at most 2 connections and 3 stateless resets per peer), with
  a preferred endpoint added; and the same socket listening.
\<close>

definition example_socket :: QuicSocket where
  "example_socket =
     (new_QuicSocket example_env 10 2 3 False False False None False ''h3'')
       \<lparr>preferred_endpoint := True\<rparr>"

definition listening_socket :: QuicSocket where
  "listening_socket = example_socket\<lparr>server_listening := True\<rparr>"

text \<open>A 42-byte short-header datagram for a destination CID that no session owns.\<close>

definition short_env :: env where
  "short_env = example_env
     \<lparr>pkt_decode_version_cid :=
        (\<lambda>buf n. Some \<lparr>pversion = NGTCP2_PROTO_VER, pdcid = replicate 8 0xD1, pscid = None\<rparr>)\<rparr>"

definition short_datagram :: datagram where
  "short_datagram =
     \<lparr>dg_nread = 42, dg_buf = 0x40 # replicate 8 0xD1 @ replicate 33 0x00,
      dg_local_addr = host_addr, dg_remote_addr = peer_addr\<rparr>"

text \<open>An environment whose rx-loss draw drops the datagram.\<close>

definition lossy_env :: env where
  "lossy_env = example_env\<lparr>rx_loss_draw := True\<rparr>"

text \<open>A short-header datagram whose last 16 bytes are a stateless-reset token.\<close>

definition known_token :: bytes where
  "known_token = replicate 16 0xEE"

definition token_datagram :: datagram where
  "token_datagram =
     \<lparr>dg_nread = 42, dg_buf = 0x40 # replicate 8 0xD1 @ replicate 17 0x00 @ known_token,
      dg_local_addr = host_addr, dg_remote_addr = peer_addr\<rparr>"

text \<open>
  A run that takes every way through \<open>OnReceive\<close>: a stateless reset is sent, a
  datagram fails to decode, one is lost, one carries the token of session 7, an empty
  read; the queued reset completes; and, once the host listens, a long-header datagram
  opens session 1.
\<close>

definition accounting_run :: "socket_op list" where
  "accounting_run =
     [Deliver short_env short_datagram,
      Deliver example_env short_datagram,
      Deliver lossy_env short_datagram,
      SessionTables Map.empty Map.empty [known_token \<mapsto> 7] Map.empty,
      Deliver short_env token_datagram,
      Deliver short_env (short_datagram\<lparr>dg_nread := 0\<rparr>),
      SendDone 0 0,
      HostFlags True False False,
      Deliver (short_env\<lparr>pkt_decode_version_cid :=
        (\<lambda>buf n. Some \<lparr>pversion = NGTCP2_PROTO_VER, pdcid = replicate 8 0xD1,
                         pscid = Some (replicate 8 0xD2)\<rparr>)\<rparr>) short_datagram]"

text \<open>Five short-header datagrams for unknown CIDs from one peer, the cap being 3.\<close>

definition reset_loop_run :: "socket_op list" where
  "reset_loop_run = replicate 5 (Deliver short_env short_datagram)"

text \<open>
  The byte count the stateless-reset encoder returns for a CID, and the packet that
  \<open>SendStatelessReset\<close> hands to \<open>SendPacket\<close> once its length is set to that count.
\<close>

definition reset_nwrite :: "env \<Rightarrow> cid \<Rightarrow> QuicSocket \<Rightarrow> int" where
  "reset_nwrite e c s =
     pkt_write_stateless_reset e NGTCP2_MAX_PKTLEN_IPV4
       (GenerateResetToken e (reset_token_secret s) c) (EntropySource e kRandlen)"

definition reset_packet :: "env \<Rightarrow> cid \<Rightarrow> QuicSocket \<Rightarrow> QuicPacket" where
  "reset_packet e c s =
     \<lparr>diagnostic_label = ''stateless reset'',
      pkt_length = nat (reset_nwrite e c s),
      content = StatelessReset (GenerateResetToken e (reset_token_secret s) c)
                  (EntropySource e kRandlen)\<rparr>"

text \<open>
  Collaborators that misbehave: an encoder that writes nothing, an endpoint whose send
  fails at once (\<open>-22\<close>), a tx-loss draw that drops every packet. And two packets.
\<close>

definition mute_env :: env where
  "mute_env = example_env\<lparr>pkt_write_stateless_reset := (\<lambda>destlen token random. - 203)\<rparr>"

definition failing_send_env :: env where
  "failing_send_env = short_env\<lparr>endpoint_Send := (\<lambda>p a. (- 22, False))\<rparr>"

definition lossy_tx_env :: env where
  "lossy_tx_env = example_env\<lparr>tx_loss_draw := (\<lambda>p. True)\<rparr>"

definition example_packet :: QuicPacket where
  "example_packet =
     \<lparr>diagnostic_label = ''retry'', pkt_length = 60,
      content = Retry NGTCP2_PROTO_VER (replicate 8 0xB2) (replicate 16 0x5A) (replicate 8 0xD1)
                  (replicate 8 0x77)\<rparr>"

definition empty_packet :: QuicPacket where
  "empty_packet = \<lparr>diagnostic_label = ''empty'', pkt_length = 0, content = Unwritten\<rparr>"


text \<open>
  Stations of \<open>OnReceive\<close>: the socket once the header is decoded, the socket when
  \<open>MaybeStatelessReset\<close> is entered, and the socket once the datagram has been given to
  the session that owns the reset token.
\<close>

definition after_decode :: "int \<Rightarrow> QuicSocket \<Rightarrow> QuicSocket" where
  "after_decode nread s =
     Debug ''Received a QUIC packet for dcid %s''
       (IncrementSocketStat (as_size_t nread) bytes_received_update
          (Debug ''Receiving %d bytes from the UDP socket.'' s))"

definition reached_reset_check :: "int \<Rightarrow> QuicSocket \<Rightarrow> QuicSocket" where
  "reached_reset_check nread s =
     Debug ''There is no existing session for dcid %s'' (after_decode nread s)"

definition given_to_session :: "session \<Rightarrow> int \<Rightarrow> bytes \<Rightarrow> sockaddr \<Rightarrow> QuicSocket \<Rightarrow> QuicSocket" where
  "given_to_session x nread buf remote_addr s =
     emit (SessionReceive x nread buf remote_addr)
       (Debug ''Received a stateless reset token'' (reached_reset_check nread s))"

text \<open>Sessions that reject what they are given; a socket that knows the token of session 7.\<close>

definition rejecting_env :: env where
  "rejecting_env = short_env\<lparr>session_Receive := (\<lambda>x. False)\<rparr>"

definition token_socket :: QuicSocket where
  "token_socket = example_socket\<lparr>token_map := [known_token \<mapsto> 7]\<rparr>"

text \<open>What \<open>CreateServer\<close> is asked for when the server is busy.\<close>

definition busy_args ::
  "uint32 \<Rightarrow> cid \<Rightarrow> cid \<Rightarrow> sockaddr \<Rightarrow> sockaddr \<Rightarrow> QuicSocket \<Rightarrow> create_args" where
  "busy_args version dcid scid local_addr remote_addr s =
     \<lparr>ca_dcid = dcid, ca_local_addr = local_addr, ca_remote_addr = remote_addr,
      ca_scid = scid, ca_ocid = None, ca_version = version,
      ca_alpn = server_alpn s, ca_options = server_options s,
      ca_initial_connection_close = NGTCP2_SERVER_BUSY, ca_qlog = qlog s\<rparr>"

text \<open>
  A listening socket on which the peer already has two connections, asking for address
  validation; a 1252-byte long-header datagram with DCID \<open>AA\<dots>\<close> and SCID \<open>BB\<dots>\<close>,
  in the supported version and in version \<open>0x01020304\<close>; a session class that cannot
  build a session.
\<close>

definition crowded_socket :: QuicSocket where
  "crowded_socket = listening_socket\<lparr>addr_counts := [peer_addr \<mapsto> 2], validate_address := True\<rparr>"

definition initial_env :: env where
  "initial_env = example_env
     \<lparr>pkt_decode_version_cid :=
        (\<lambda>buf n. Some \<lparr>pversion = NGTCP2_PROTO_VER, pdcid = replicate 8 0xAA,
                         pscid = Some (replicate 8 0xBB)\<rparr>)\<rparr>"

definition long_header_buf :: bytes where
  "long_header_buf = 0xC0 # replicate 1251 0x00"

definition failing_factory_env :: env where
  "failing_factory_env = initial_env\<lparr>session_CreateServer := (\<lambda>args. None)\<rparr>"

definition other_version_env :: env where
  "other_version_env = example_env
     \<lparr>pkt_decode_version_cid :=
        (\<lambda>buf n. Some \<lparr>pversion = 0x01020304, pdcid = replicate 8 0xAA,
                         pscid = Some (replicate 8 0xBB)\<rparr>),
      session_Accept :=
        (\<lambda>v buf n. (PACKET_VERSION, \<lparr>hd_type = NGTCP2_PKT_INITIAL, hd_token = []\<rparr>))\<rparr>"


section \<open>Properties\<close>

subsection \<open>The reserved version\<close>

lemma fnv_loop_append: "fnv_loop h (xs @ ys) = fnv_loop (fnv_loop h xs) ys"
  by (induction xs arbitrary: h) simp_all

lemma unat_fnv_step:
  "unat ((h XOR ucast (p :: byte)) * (0x01000193 :: uint32)) =
     ((unat h XOR unat p) * 0x01000193) mod 2 ^ 32"
proof -
  have "unat p < 2 ^ 8"
    using unsigned_less [of p] by simp
  then have "unat p < 2 ^ 32"
    by simp
  then have "unat (ucast p :: uint32) = unat p"
    by (simp add: unsigned_ucast_eq take_bit_nat_eq_self)
  then have "unat (h XOR ucast p) = unat h XOR unat p"
    by (simp add: unsigned_xor_eq)
  then show ?thesis
    by (simp add: unat_word_ariths)
qed

lemma unat_fnv_loop:
  "unat (fnv_loop h ps) = fnv1a_32_spec (unat h) (map unat ps)"
proof (induction ps arbitrary: h)
  case Nil
  show ?case by simp
next
  case (Cons p ps)
  show ?case
    by (simp only: fnv_loop.simps list.map fnv1a_32_spec.simps Cons.IH unat_fnv_step)
qed

lemma map_unat_htonl_bytes:
  "map unat (htonl_bytes v) = big_endian_32_spec (unat v)"
proof -
  have a: "unat (ucast (drop_bit n v) :: byte) = unat v div 2 ^ n mod 256" for n
  proof -
    have "unat (ucast (drop_bit n v) :: byte) = take_bit 8 (drop_bit n (unat v))"
      by (simp add: unsigned_ucast_eq unat_drop_bit_eq)
    also have "\<dots> = unat v div 2 ^ n mod 256"
      by (simp add: take_bit_eq_mod drop_bit_eq_div)
    finally show ?thesis .
  qed
  have b: "unat (ucast v :: byte) = unat v mod 256"
    by (simp add: unsigned_ucast_eq take_bit_eq_mod)
  show ?thesis
    by (simp add: htonl_bytes_def big_endian_32_spec_def a b)
qed

lemma reserved_bits: "((h AND 0xf0f0f0f0) OR 0x0a0a0a0a) AND (0x0f0f0f0f :: uint32) = 0x0a0a0a0a"
proof -
  have "((h AND 0xf0f0f0f0) OR 0x0a0a0a0a) AND (0x0f0f0f0f :: uint32)
        = (h AND (0xf0f0f0f0 AND 0x0f0f0f0f)) OR (0x0a0a0a0a AND 0x0f0f0f0f)"
    by (simp only: bit.conj_disj_distrib2 and.assoc)
  also have "\<dots> = 0x0a0a0a0a"
    by simp
  finally show ?thesis .
qed

text \<open>
  C8. For every remote sockaddr \<open>a\<close> and 32-bit version \<open>v\<close>, the value computed by
  \<open>GenerateReservedVersion\<close> is the 32-bit FNV-1a hash (offset basis \<open>0x811C9DC5\<close>,
  prime \<open>0x01000193\<close>, arithmetic modulo \<open>2^32\<close>) of the raw sockaddr bytes followed by
  the four bytes of \<open>htonl v\<close>, masked to \<open>(h & 0xF0F0F0F0) | 0x0A0A0A0A\<close>; and its low
  nibbles are always \<open>0xA\<close>: \<open>(reserved_version(a,v) & 0x0F0F0F0F) = 0x0A0A0A0A\<close>.
\<close>

theorem C8_reserved_version:
  "unat (GenerateReservedVersion a v) = reserved_version_spec (map unat a) (unat v)
   \<and> GenerateReservedVersion a v AND 0x0F0F0F0F = 0x0A0A0A0A"
proof
  have "unat (GenerateReservedVersion a v)
        = (unat (fnv_loop (fnv_loop 0x811C9DC5 a) (htonl_bytes v)) AND 0xF0F0F0F0) OR 0x0A0A0A0A"
    by (simp add: GenerateReservedVersion_def unsigned_or_eq unsigned_and_eq)
  also have "fnv_loop (fnv_loop 0x811C9DC5 a) (htonl_bytes v) = fnv_loop 0x811C9DC5 (a @ htonl_bytes v)"
    by (simp add: fnv_loop_append)
  also have "unat (fnv_loop 0x811C9DC5 (a @ htonl_bytes v))
        = fnv1a_32_spec 0x811C9DC5 (map unat a @ big_endian_32_spec (unat v))"
    by (simp add: unat_fnv_loop map_unat_htonl_bytes)
  finally show "unat (GenerateReservedVersion a v) = reserved_version_spec (map unat a) (unat v)"
    by (simp add: reserved_version_spec_def)
next
  show "GenerateReservedVersion a v AND 0x0F0F0F0F = 0x0A0A0A0A"
    unfolding GenerateReservedVersion_def Let_def by (rule reserved_bits)
qed

subsection \<open>Frames of the socket operations\<close>

lemma same_charges_refl [simp]: "same_charges s s"
  by (simp add: same_charges_def)

lemma same_resets_refl [simp]: "same_resets s s"
  by (simp add: same_resets_def)

lemma same_charges_trans: "same_charges s s1 \<Longrightarrow> same_charges s1 s2 \<Longrightarrow> same_charges s s2"
  by (simp add: same_charges_def)

lemma same_resets_trans: "same_resets s s1 \<Longrightarrow> same_resets s1 s2 \<Longrightarrow> same_resets s s2"
  by (simp add: same_resets_def)

lemma handled_resets_Debug:
  "handled_resets (Debug m s) = handled_resets s + (if m = ''Handled stateless reset'' then 1 else 0)"
  by (simp add: handled_resets_def Debug_def)

lemma handled_resets_emit:
  "handled_resets (emit ev s) =
     handled_resets s + (if ev = DebugMsg ''Handled stateless reset'' then 1 else 0)"
  by (simp add: handled_resets_def emit_def)

lemma Debug_charges: "m \<noteq> ''Handled stateless reset'' \<Longrightarrow> same_charges s (Debug m s)"
  by (simp add: same_charges_def handled_resets_Debug) (simp add: Debug_def)

lemma Debug_resets [simp]: "same_resets s (Debug m s)"
  by (simp add: same_resets_def Debug_def)

lemma OnSend_charges: "same_charges s (OnSend st p s)"
  by (simp add: same_charges_def OnSend_def handled_resets_def IncrementSocketStat_def Debug_def)

lemma OnSend_resets: "same_resets s (OnSend st p s)"
  by (simp add: same_resets_def OnSend_def IncrementSocketStat_def Debug_def)

lemma SendPacket_charges:
  "SendPacket e l r p x s = Inr (err, s') \<Longrightarrow> same_charges s s'"
  by (auto simp: SendPacket_def Let_def same_charges_def OnSend_def handled_resets_def
      IncrementSocketStat_def Debug_def emit_def split: if_splits)

lemma SendPacket_resets:
  "SendPacket e l r p x s = Inr (err, s') \<Longrightarrow> same_resets s s'"
  by (auto simp: SendPacket_def Let_def same_resets_def OnSend_def
      IncrementSocketStat_def Debug_def emit_def split: if_splits)


lemma SendVersionNegotiation_charges:
  "SendVersionNegotiation e v d c l r s = Inr (u, s') \<Longrightarrow> same_charges s s'"
  by (auto simp: SendVersionNegotiation_def Let_def split: sum.splits if_splits
      dest: SendPacket_charges)

lemma SendVersionNegotiation_resets:
  "SendVersionNegotiation e v d c l r s = Inr (u, s') \<Longrightarrow> same_resets s s'"
  by (auto simp: SendVersionNegotiation_def Let_def split: sum.splits if_splits
      dest: SendPacket_resets)

lemma SendRetry_charges:
  "SendRetry e v d c l r s = Inr (u, s') \<Longrightarrow> same_charges s s'"
  by (auto simp: SendRetry_def Let_def split: sum.splits if_splits option.splits
      dest: SendPacket_charges)

lemma SendRetry_resets:
  "SendRetry e v d c l r s = Inr (u, s') \<Longrightarrow> same_resets s s'"
  by (auto simp: SendRetry_def Let_def split: sum.splits if_splits option.splits
      dest: SendPacket_resets)

lemma initial_connection_close_charges:
  "same_charges s (snd (initial_connection_close r s))"
  by (simp add: initial_connection_close_def Let_def same_charges_def handled_resets_def Debug_def)

lemma initial_connection_close_resets:
  "same_resets s (snd (initial_connection_close r s))"
  by (simp add: initial_connection_close_def Let_def same_resets_def Debug_def)

lemma create_and_announce_charges:
  "create_and_announce e v d c l r oc cc s = Inr (x, s') \<Longrightarrow> same_charges s s'"
  by (auto simp: create_and_announce_def Let_def same_charges_def handled_resets_emit)
     (simp_all add: emit_def)

lemma create_and_announce_resets:
  "create_and_announce e v d c l r oc cc s = Inr (x, s') \<Longrightarrow> same_resets s s'"
  by (auto simp: create_and_announce_def Let_def same_resets_def emit_def)

lemma set_validated_address_charges: "same_charges s (set_validated_address a s)"
  by (simp add: set_validated_address_def Let_def same_charges_def handled_resets_def)

lemma set_validated_address_resets: "same_resets s (set_validated_address a s)"
  by (simp add: set_validated_address_def Let_def same_resets_def)

lemma accept_ok_charges:
  assumes "accept_ok e h v d c l r s = Inr (x, s')"
  shows "same_charges s s'"
proof -
  let ?s2 = "snd (initial_connection_close r s)"
  let ?s3 = "Debug ''Performing explicit address validation.'' ?s2"
  have a2: "same_charges s ?s2"
    by (rule initial_connection_close_charges)
  have a3: "same_charges s ?s3"
    by (rule same_charges_trans [OF a2]) (simp add: Debug_charges)
  have a4: "same_charges s (Debug ''A valid retry token was not found. Sending retry.'' ?s3)"
    by (rule same_charges_trans [OF a3]) (simp add: Debug_charges)
  have a5: "same_charges s (set_validated_address r
              (Debug ''A valid retry token was found. Continuing.'' ?s3))"
    by (rule same_charges_trans [OF a3], rule same_charges_trans [OF _ set_validated_address_charges])
       (simp add: Debug_charges)
  have a6: "same_charges s (Debug ''Skipping validation for recently validated address.'' ?s2)"
    by (rule same_charges_trans [OF a2]) (simp add: Debug_charges)
  from assms show ?thesis
    unfolding accept_ok_def Let_def
    by (auto split: if_splits sum.splits
        dest!: SendRetry_charges create_and_announce_charges
        intro: same_charges_trans [OF a2] same_charges_trans [OF a4] same_charges_trans [OF a5]
          same_charges_trans [OF a6])
qed


lemma accept_ok_resets:
  assumes "accept_ok e h v d c l r s = Inr (x, s')"
  shows "same_resets s s'"
proof -
  let ?s2 = "snd (initial_connection_close r s)"
  let ?s3 = "Debug ''Performing explicit address validation.'' ?s2"
  have a2: "same_resets s ?s2"
    by (rule initial_connection_close_resets)
  have a3: "same_resets s ?s3"
    by (rule same_resets_trans [OF a2]) simp
  have a4: "same_resets s (Debug ''A valid retry token was not found. Sending retry.'' ?s3)"
    by (rule same_resets_trans [OF a3]) simp
  have a5: "same_resets s (set_validated_address r
              (Debug ''A valid retry token was found. Continuing.'' ?s3))"
    by (rule same_resets_trans [OF a3], rule same_resets_trans [OF _ set_validated_address_resets])
       simp
  have a6: "same_resets s (Debug ''Skipping validation for recently validated address.'' ?s2)"
    by (rule same_resets_trans [OF a2]) simp
  from assms show ?thesis
    unfolding accept_ok_def Let_def
    by (auto split: if_splits sum.splits
        dest!: SendRetry_resets create_and_announce_resets
        intro: same_resets_trans [OF a2] same_resets_trans [OF a4] same_resets_trans [OF a5]
          same_resets_trans [OF a6])
qed

lemma AcceptInitialPacket_charges:
  assumes "AcceptInitialPacket e v d c n b l r s = Inr (x, s')"
  shows "same_charges s s'"
proof -
  have a: "same_charges s (Debug ''0RTT Packet. Sending retry.'' s)"
    by (simp add: Debug_charges)
  from assms show ?thesis
    unfolding AcceptInitialPacket_def
    by (auto split: if_splits sum.splits InitialPacketResult.splits
        simp: Debug_charges
        dest!: SendRetry_charges SendVersionNegotiation_charges accept_ok_charges
        intro: same_charges_trans [OF a])
qed

lemma AcceptInitialPacket_resets:
  assumes "AcceptInitialPacket e v d c n b l r s = Inr (x, s')"
  shows "same_resets s s'"
proof -
  have a: "same_resets s (Debug ''0RTT Packet. Sending retry.'' s)"
    by simp
  from assms show ?thesis
    unfolding AcceptInitialPacket_def
    by (auto split: if_splits sum.splits InitialPacketResult.splits
        dest!: SendRetry_resets SendVersionNegotiation_resets accept_ok_resets
        intro: same_resets_trans [OF a])
qed

lemma Receive_charges: "same_charges s (snd (Receive e x n b r s))"
  by (simp add: Receive_def same_charges_def handled_resets_emit) (simp add: emit_def)

lemma Receive_resets: "same_resets s (snd (Receive e x n b r s))"
  by (simp add: Receive_def same_resets_def emit_def)

lemma MaybeStatelessReset_charges:
  "same_charges s (snd (MaybeStatelessReset e d c n b r s))"
  by (auto simp: MaybeStatelessReset_def Let_def split: option.splits
      intro: same_charges_trans [OF Debug_charges Receive_charges])

lemma MaybeStatelessReset_resets:
  "same_resets s (snd (MaybeStatelessReset e d c n b r s))"
  by (auto simp: MaybeStatelessReset_def Let_def split: option.splits
      intro: same_resets_trans [OF Debug_resets Receive_resets])

lemma same_resets_within: "same_resets s s' \<Longrightarrow> resets_within m s \<Longrightarrow> resets_within m s'"
  by (simp add: same_resets_def resets_within_def GetCurrentStatelessResetCounter_def)

lemma IncrementStatelessResetCounter_within:
  "resets_within m s \<Longrightarrow>
   GetCurrentStatelessResetCounter r s < max_stateless_resets_per_host s \<Longrightarrow>
   resets_within m (IncrementStatelessResetCounter r s)"
  by (auto simp: resets_within_def IncrementStatelessResetCounter_def
      GetCurrentStatelessResetCounter_def)

lemma IncrementStatelessResetCounter_charges:
  "same_charges s (IncrementStatelessResetCounter r s)"
  by (simp add: same_charges_def IncrementStatelessResetCounter_def handled_resets_def)

lemma SendStatelessReset_charges:
  "SendStatelessReset e c l r n s = Inr (ok, s') \<Longrightarrow> same_charges s s'"
  by (auto simp: SendStatelessReset_def Let_def split: if_splits sum.splits
      dest!: SendPacket_charges
      intro: same_charges_trans [OF IncrementStatelessResetCounter_charges])

lemma SendStatelessReset_within:
  assumes "SendStatelessReset e c l r n s = Inr (ok, s')" and "resets_within m s"
  shows "resets_within m s'"
  using assms
  by (auto simp: SendStatelessReset_def Let_def not_le split: if_splits sum.splits
      dest!: SendPacket_resets
      elim!: same_resets_within intro!: IncrementStatelessResetCounter_within)


lemma same_charges_accounted: "same_charges s s' \<Longrightarrow> accounted s' = accounted s"
  by (simp add: same_charges_def accounted_def)

lemma accounted_ignored:
  "accounted (IncrementSocketStat k packets_ignored_update s) = accounted s + k"
  by (simp add: accounted_def IncrementSocketStat_def handled_resets_def)

lemma accounted_received:
  "accounted (IncrementSocketStat k packets_received_update s) = accounted s + k"
  by (simp add: accounted_def IncrementSocketStat_def handled_resets_def)

lemma accounted_reset:
  "accounted (IncrementSocketStat k stateless_reset_count_update s) = accounted s + k"
  by (simp add: accounted_def IncrementSocketStat_def handled_resets_def)

lemma accounted_bytes:
  "accounted (IncrementSocketStat n bytes_received_update s) = accounted s"
  by (simp add: accounted_def IncrementSocketStat_def handled_resets_def)

lemma accounted_Debug:
  "accounted (Debug m s) = accounted s + (if m = ''Handled stateless reset'' then 1 else 0)"
  by (simp add: accounted_def handled_resets_Debug) (simp add: Debug_def)

lemma IncrementSocketStat_resets: "same_resets s (IncrementSocketStat n f s)"
  by (simp add: same_resets_def IncrementSocketStat_def)

lemma deliver_accounted: "accounted (deliver e x n b r s) = accounted s + 1"
  by (simp add: deliver_def Let_def accounted_ignored accounted_received
      same_charges_accounted [OF Receive_charges])

lemma deliver_resets: "same_resets s (deliver e x n b r s)"
  by (auto simp: deliver_def Let_def
      intro: same_resets_trans [OF Receive_resets IncrementSocketStat_resets])

lemma accept_path_accounted:
  assumes "accept_path e sh v d c n b l r s = Inr s'"
  shows "accounted s' = accounted s + 1"
  using assms unfolding accept_path_def Let_def
  by (auto split: sum.splits option.splits bool.splits if_splits
      simp: accounted_ignored accounted_received accounted_reset accounted_Debug deliver_accounted
      dest!: AcceptInitialPacket_charges SendStatelessReset_charges same_charges_accounted)

lemma AcceptInitialPacket_within:
  "AcceptInitialPacket e v d c n b l r s = Inr (x, s') \<Longrightarrow> resets_within m s \<Longrightarrow> resets_within m s'"
  by (blast intro: same_resets_within dest: AcceptInitialPacket_resets)

lemma accept_path_within:
  assumes "accept_path e sh v d c n b l r s = Inr s'" and "resets_within m s"
  shows "resets_within m s'"
proof -
  have D: "resets_within m (Debug msg t)" if "resets_within m t" for msg t
    using that by (rule same_resets_within [OF Debug_resets])
  have I: "resets_within m (IncrementSocketStat k f t)" if "resets_within m t" for k f t
    using that by (rule same_resets_within [OF IncrementSocketStat_resets])
  have V: "resets_within m (deliver e x n b r t)" if "resets_within m t" for x t
    using that by (rule same_resets_within [OF deliver_resets])
  from assms(1) obtain x s1 where
    A: "AcceptInitialPacket e v d c n b l r s = Inr (x, s1)"
    by (auto simp: accept_path_def split: sum.splits)
  have b1: "resets_within m s1"
    using A assms(2) by (rule AcceptInitialPacket_within)
  show ?thesis
  proof (cases x)
    case (Some y)
    with assms(1) A have "s' = deliver e y n b r s1"
      by (simp add: accept_path_def)
    with b1 show ?thesis by (simp add: V)
  next
    case None
    let ?s2 = "Debug ''Unable to create a new server QuicSession.'' s1"
    have b2: "resets_within m ?s2" using b1 by (rule D)
    show ?thesis
    proof (cases sh)
      case False
      with assms(1) A None have "s' = IncrementSocketStat 1 packets_ignored_update ?s2"
        by (simp add: accept_path_def)
      with b2 show ?thesis by (simp add: I)
    next
      case True
      with assms(1) A None obtain ok s3 where
        S: "SendStatelessReset e d l r (as_size_t n) ?s2 = Inr (ok, s3)"
        by (auto simp: accept_path_def Let_def split: sum.splits)
      have b3: "resets_within m s3"
        using S b2 by (rule SendStatelessReset_within)
      from assms(1) A None True S
      have "s' = (if ok then IncrementSocketStat 1 stateless_reset_count_update
                               (Debug ''Sent stateless reset'' s3)
                  else IncrementSocketStat 1 packets_ignored_update s3)"
        by (auto simp: accept_path_def Let_def)
      with b3 show ?thesis by (simp add: I D)
    qed
  qed
qed


lemma no_session_accounted:
  assumes "no_session e d n b l r s = Inr s'"
  shows "accounted s' = accounted s + 1"
proof -
  let ?s1 = "Debug ''There is no existing session for dcid %s'' s"
  let ?m = "MaybeStatelessReset e (pdcid d) (QuicCID (pscid d)) n b r ?s1"
  have a1: "accounted ?s1 = accounted s"
    by (simp add: accounted_Debug)
  have am: "accounted (snd ?m) = accounted s"
    using same_charges_accounted [OF MaybeStatelessReset_charges] a1 by simp
  from assms show ?thesis
    unfolding no_session_def Let_def
    by (auto split: if_splits simp: accounted_Debug am a1 dest!: accept_path_accounted)
qed

lemma no_session_within:
  assumes "no_session e d n b l r s = Inr s'" and "resets_within m s"
  shows "resets_within m s'"
proof -
  let ?s1 = "Debug ''There is no existing session for dcid %s'' s"
  let ?m = "MaybeStatelessReset e (pdcid d) (QuicCID (pscid d)) n b r ?s1"
  have b1: "resets_within m ?s1"
    using assms(2) by (rule same_resets_within [OF Debug_resets])
  have bm: "resets_within m (snd ?m)"
    using b1 by (rule same_resets_within [OF MaybeStatelessReset_resets])
  have bh: "resets_within m (Debug ''Handled stateless reset'' (snd ?m))"
    using bm by (rule same_resets_within [OF Debug_resets])
  from assms(1) show ?thesis
    unfolding no_session_def Let_def
    by (auto split: if_splits simp: bh dest: accept_path_within [OF _ bm] accept_path_within [OF _ b1])
qed

lemma OnReceive_accounted:
  assumes "OnReceive e n b l r s = Inr s'"
  shows "accounted s' = accounted s + (if rx_loss_draw e then 0 else 1)"
  using assms unfolding OnReceive_def Let_def
  by (auto split: if_splits option.splits sum.splits
      simp: accounted_Debug accounted_ignored accounted_bytes deliver_accounted
      dest!: no_session_accounted)

lemma OnReceive_within:
  assumes "OnReceive e n b l r s = Inr s'" and "resets_within m s"
  shows "resets_within m s'"
proof -
  have D: "resets_within m (Debug msg t)" if "resets_within m t" for msg t
    using that by (rule same_resets_within [OF Debug_resets])
  have I: "resets_within m (IncrementSocketStat k f t)" if "resets_within m t" for k f t
    using that by (rule same_resets_within [OF IncrementSocketStat_resets])
  have V: "resets_within m (deliver e x n b r t)" if "resets_within m t" for x t
    using that by (rule same_resets_within [OF deliver_resets])
  from assms show ?thesis
    unfolding OnReceive_def Let_def
    by (auto split: if_splits option.splits sum.splits
        intro!: D I V elim!: no_session_within)
qed

lemma OnRecv_accounted:
  assumes "OnRecv e dg s = Inr s'"
  shows "accounted s' = accounted s + (if dg_nread dg > 0 \<and> \<not> rx_loss_draw e then 1 else 0)"
  using assms unfolding OnRecv_def
  by (auto split: if_splits simp: OnError_def accounted_Debug accounted_def handled_resets_emit
      dest!: OnReceive_accounted)
     (simp_all add: emit_def Debug_def handled_resets_def)

lemma OnRecv_within:
  assumes "OnRecv e dg s = Inr s'" and "resets_within m s"
  shows "resets_within m s'"
  using assms unfolding OnRecv_def
  by (auto split: if_splits dest: OnReceive_within
      simp: OnError_def resets_within_def emit_def Debug_def GetCurrentStatelessResetCounter_def)

lemma OnSendDone_charges: "same_charges s (OnSendDone i st s)"
proof (cases "i < length (send_wraps s)")
  case True
  let ?t = "s\<lparr>send_wraps := take i (send_wraps s) @ drop (Suc i) (send_wraps s)\<rparr>"
  have "same_charges s ?t"
    by (simp add: same_charges_def handled_resets_def)
  from same_charges_trans [OF this OnSend_charges] True show ?thesis
    by (simp add: OnSendDone_def)
next
  case False
  then show ?thesis by (simp add: OnSendDone_def)
qed

lemma OnSendDone_resets: "same_resets s (OnSendDone i st s)"
proof (cases "i < length (send_wraps s)")
  case True
  let ?t = "s\<lparr>send_wraps := take i (send_wraps s) @ drop (Suc i) (send_wraps s)\<rparr>"
  have "same_resets s ?t"
    by (simp add: same_resets_def)
  from same_resets_trans [OF this OnSend_resets] True show ?thesis
    by (simp add: OnSendDone_def)
next
  case False
  then show ?thesis by (simp add: OnSendDone_def)
qed

lemma apply_op_accounted:
  assumes "apply_op op s = Inr s'"
  shows "accounted s' = accounted s + delivered [op]"
proof (cases op)
  case (Deliver e dg)
  with assms show ?thesis
    by (auto simp: apply_op_def dest!: OnRecv_accounted)
next
  case (SendDone i st)
  with assms have "s' = OnSendDone i st s"
    by (simp add: apply_op_def)
  with SendDone show ?thesis
    by (simp add: same_charges_accounted [OF OnSendDone_charges])
next
  case (SessionTables ss al tm ac)
  with assms show ?thesis
    by (auto simp: apply_op_def accounted_def handled_resets_def)
next
  case (HostFlags li bu nr)
  with assms show ?thesis
    by (auto simp: apply_op_def accounted_def handled_resets_def)
qed

lemma apply_op_within:
  assumes "apply_op op s = Inr s'" and "resets_within m s"
  shows "resets_within m s'"
proof (cases op)
  case (Deliver e dg)
  with assms show ?thesis
    by (auto simp: apply_op_def dest: OnRecv_within)
next
  case (SendDone i st)
  with assms have "s' = OnSendDone i st s"
    by (simp add: apply_op_def)
  with assms(2) show ?thesis
    by (simp add: same_resets_within [OF OnSendDone_resets])
next
  case (SessionTables ss al tm ac)
  with assms show ?thesis
    by (auto simp: apply_op_def resets_within_def GetCurrentStatelessResetCounter_def)
next
  case (HostFlags li bu nr)
  with assms show ?thesis
    by (auto simp: apply_op_def resets_within_def GetCurrentStatelessResetCounter_def)
qed

lemma delivered_Cons: "delivered (op # ops) = delivered [op] + delivered ops"
  by (cases op) simp_all

lemma run_accounted:
  "run s ops = Inr s' \<Longrightarrow> accounted s' = accounted s + delivered ops"
proof (induction ops arbitrary: s)
  case Nil
  then show ?case by simp
next
  case (Cons op ops)
  from Cons.prems obtain s1 where
    1: "apply_op op s = Inr s1" and 2: "run s1 ops = Inr s'"
    by (auto split: sum.splits)
  show ?case
    using apply_op_accounted [OF 1] Cons.IH [OF 2] delivered_Cons [of op ops] by simp
qed

lemma run_within:
  "run s ops = Inr s' \<Longrightarrow> resets_within m s \<Longrightarrow> resets_within m s'"
proof (induction ops arbitrary: s)
  case Nil
  then show ?case by simp
next
  case (Cons op ops)
  from Cons.prems(1) obtain s1 where
    1: "apply_op op s = Inr s1" and 2: "run s1 ops = Inr s'"
    by (auto split: sum.splits)
  show ?case
    using Cons.IH [OF 2] apply_op_within [OF 1 Cons.prems(2)] by simp
qed

subsection \<open>Evaluating the model\<close>

lemmas model_defs = OnRecv_def OnReceive_def no_session_def accept_path_def deliver_def
  AcceptInitialPacket_def accept_ok_def create_and_announce_def initial_connection_close_def
  SendStatelessReset_def SendVersionNegotiation_def SendRetry_def SendPacket_def OnSend_def
  MaybeStatelessReset_def Receive_def FindSession_def IsShortHeader_def OnSendDone_def
  Debug_def emit_def IncrementSocketStat_def OnError_def
  GetCurrentSocketAddressCounter_def GetCurrentStatelessResetCounter_def
  IncrementStatelessResetCounter_def is_validated_address_def set_validated_address_def
  QuicPacket_Create_def set_length_def size_t_pred_def SIZE_MAX_def as_size_t_def QuicCID_def
  pdcidlen_def pscidlen_def entropy_byte_def
  kRandlen_def kMinStatelessResetLen_def
  NGTCP2_PROTO_VER_def NGTCP2_MAX_CIDLEN_def NGTCP2_STATELESS_RESET_TOKENLEN_def
  NGTCP2_MIN_STATELESS_RESET_RANDLEN_def NGTCP2_MAX_PKT_SIZE_def NGTCP2_MAX_PKTLEN_IPV4_def
  NGTCP2_MAX_PKTLEN_IPV6_def kScidLen_def NGTCP2_NO_ERROR_def NGTCP2_SERVER_BUSY_def

lemmas example_defs = example_env_def example_socket_def short_env_def short_datagram_def
  new_QuicSocket_def peer_addr_def host_addr_def kTokenSecretLen_def listening_socket_def

subsection \<open>Accounting of datagrams\<close>

text \<open>
  C1, as the spec states it: after any run, \<open>packets_received + packets_ignored\<close> has
  grown by the number of datagrams that reached \<open>OnReceive\<close> with \<open>nread > 0\<close> and
  were not dropped by the rx-loss draw. This fails: a short-header datagram for an
  unknown CID that is answered with a stateless reset is charged to
  \<open>stateless_reset_count\<close> and to neither of the two counters.
\<close>

theorem C1_counterexample:
  "observe charged (run example_socket [Deliver short_env short_datagram]) = Some 0
   \<and> charged example_socket = 0
   \<and> delivered [Deliver short_env short_datagram] = 1"
  by (simp add: observe_def charged_def apply_op_def model_defs example_defs Let_def)

text \<open>
  C1, amended: after any run that does not abort, the sum of \<open>packets_received\<close>,
  \<open>packets_ignored\<close>, \<open>stateless_reset_count\<close> and the number of datagrams that
  \<open>MaybeStatelessReset\<close> handled (a matching reset token whose session processed the
  datagram; these are charged to no counter) has grown by exactly the number of
  datagrams delivered with \<open>nread > 0\<close> and not dropped by the rx-loss draw. So every
  such datagram is charged to at most one counter.
\<close>

theorem C1_accounting:
  assumes "run s ops = Inr s'"
  shows "packets_received (stats s') + packets_ignored (stats s')
           + stateless_reset_count (stats s') + handled_resets s'
         = packets_received (stats s) + packets_ignored (stats s)
           + stateless_reset_count (stats s) + handled_resets s + delivered ops"
  using run_accounted [OF assms] by (simp add: accounted_def)

lemma accounting_run_result:
  "observe (\<lambda>s. (packets_received (stats s), packets_ignored (stats s),
              stateless_reset_count (stats s), handled_resets s))
     (run example_socket accounting_run) = Some (1, 1, 1, 1)"
  by (simp add: observe_def apply_op_def model_defs example_defs Let_def accounting_run_def
      lossy_env_def token_datagram_def known_token_def handled_resets_def)

theorem C1_accounting_witness:
  "\<exists>s'. run example_socket accounting_run = Inr s'
     \<and> packets_received (stats s') + packets_ignored (stats s')
           + stateless_reset_count (stats s') + handled_resets s' = 4
     \<and> delivered accounting_run = 4"
proof -
  have "\<exists>s'. run example_socket accounting_run = Inr s'"
    using accounting_run_result by (auto simp: observe_def split: sum.splits)
  then obtain s' where r: "run example_socket accounting_run = Inr s'" ..
  have d: "delivered accounting_run = 4"
    by (simp add: accounting_run_def example_defs lossy_env_def token_datagram_def)
  have z: "packets_received (stats example_socket) + packets_ignored (stats example_socket)
           + stateless_reset_count (stats example_socket) + handled_resets example_socket = 0"
    by (simp add: example_defs handled_resets_def)
  from C1_accounting [OF r] d z r show ?thesis
    by auto
qed

subsection \<open>The cap on stateless resets per peer\<close>

lemma SendStatelessReset_refuses_at_cap:
  "max_stateless_resets_per_host s \<le> GetCurrentStatelessResetCounter r s \<Longrightarrow>
   SendStatelessReset e c l r n s = Inr (False, s)"
  by (simp add: SendStatelessReset_def)

text \<open>
  C6. From any socket whose reset counters are within the cap (a new socket has none),
  after any run of datagrams, interleaved with any changes to the session tables and
  flags made outside this file, every peer's counter is still at most
  \<open>max_stateless_resets_per_host\<close>, the cap itself is unchanged, and for a peer whose
  counter has reached the cap \<open>SendStatelessReset\<close> refuses: it returns false and leaves
  the socket as it was.
\<close>

theorem C6_resets_bounded:
  assumes "run s ops = Inr s'"
    and "\<forall>q. GetCurrentStatelessResetCounter q s \<le> max_stateless_resets_per_host s"
  shows "GetCurrentStatelessResetCounter p s' \<le> max_stateless_resets_per_host s'
         \<and> max_stateless_resets_per_host s' = max_stateless_resets_per_host s
         \<and> (max_stateless_resets_per_host s' \<le> GetCurrentStatelessResetCounter p s' \<longrightarrow>
              SendStatelessReset e c l p n s' = Inr (False, s'))"
proof -
  have "resets_within (max_stateless_resets_per_host s) s"
    using assms(2) by (simp add: resets_within_def)
  with assms(1) have "resets_within (max_stateless_resets_per_host s) s'"
    by (rule run_within)
  then show ?thesis
    by (simp add: resets_within_def SendStatelessReset_refuses_at_cap)
qed

lemma reset_loop_result:
  "observe (\<lambda>s. (GetCurrentStatelessResetCounter peer_addr s, max_stateless_resets_per_host s,
       stateless_reset_count (stats s), packets_ignored (stats s),
       map pkt_length (sent_packets (trace s))))
     (run example_socket reset_loop_run) = Some (3, 3, 3, 2, [41, 41, 41])"
  by (simp add: observe_def reset_loop_run_def apply_op_def model_defs example_defs Let_def
      numeral_eq_Suc)

theorem C6_resets_bounded_witness:
  "\<exists>s'. run example_socket reset_loop_run = Inr s'
     \<and> GetCurrentStatelessResetCounter peer_addr s' = 3
     \<and> max_stateless_resets_per_host s' = 3
     \<and> SendStatelessReset short_env (replicate 8 0xD1) host_addr peer_addr 42 s' = Inr (False, s')"
proof -
  have "\<exists>s'. run example_socket reset_loop_run = Inr s'
          \<and> GetCurrentStatelessResetCounter peer_addr s' = 3"
    using reset_loop_result by (auto simp: observe_def split: sum.splits)
  then obtain s' where r: "run example_socket reset_loop_run = Inr s'"
    and c: "GetCurrentStatelessResetCounter peer_addr s' = 3" by blast
  have i: "\<forall>q. GetCurrentStatelessResetCounter q example_socket
             \<le> max_stateless_resets_per_host example_socket"
    by (simp add: example_defs GetCurrentStatelessResetCounter_def)
  have m: "max_stateless_resets_per_host example_socket = 3"
    by (simp add: example_defs)
  from C6_resets_bounded [OF r i, of peer_addr short_env "replicate 8 0xD1" host_addr 42] r c m
  show ?thesis by auto
qed

subsection \<open>SendPacket\<close>

lemma sent_packets_append:
  "sent_packets (xs @ ys) = sent_packets xs @ sent_packets ys"
  by (induction xs rule: sent_packets.induct) simp_all

lemma SendPacket_sent:
  assumes "SendPacket e l r p x s = Inr (err, s')"
  shows "sent_packets (trace s') = sent_packets (trace s)
         \<or> sent_packets (trace s') = sent_packets (trace s) @ [p]"
  using assms
  by (auto simp: SendPacket_def Let_def OnSend_def Debug_def emit_def IncrementSocketStat_def
      sent_packets_append split: if_splits)

text \<open>
  C9. \<open>SendPacket\<close> returns 0 for an empty packet and leaves the socket as it was;
  returns 0 when the tx-loss draw drops the packet, nothing being handed to the
  endpoint; returns 0 when the preferred endpoint queues the datagram, the packet then
  being held by the send wrap; and when the endpoint's send fails at once with a
  negative status it returns that status, having called \<open>OnSend\<close> with it inline
  (which only logs the failure), the packet being held by no send wrap.
\<close>

theorem C9_send_packet:
  "(pkt_length p = 0 \<longrightarrow> SendPacket e l r p x s = Inr (0, s))
   \<and> (pkt_length p \<noteq> 0 \<and> tx_loss_draw e p \<longrightarrow>
        (\<exists>s'. SendPacket e l r p x s = Inr (0, s')
           \<and> sent_packets (trace s') = sent_packets (trace s)
           \<and> send_wraps s' = send_wraps s \<and> stats s' = stats s))
   \<and> (pkt_length p \<noteq> 0 \<and> \<not> tx_loss_draw e p \<and> preferred_endpoint s
        \<and> endpoint_Send e p r = (0, True) \<longrightarrow>
        (\<exists>s'. SendPacket e l r p x s = Inr (0, s')
           \<and> sent_packets (trace s') = sent_packets (trace s) @ [p]
           \<and> send_wraps s' = send_wraps s @ [(p, x)]))
   \<and> (pkt_length p \<noteq> 0 \<and> \<not> tx_loss_draw e p \<and> preferred_endpoint s
        \<and> fst (endpoint_Send e p r) < 0 \<longrightarrow>
        SendPacket e l r p x s
          = Inr (fst (endpoint_Send e p r),
                 OnSend (fst (endpoint_Send e p r)) p
                   (emit (EndpointSend p r)
                      (Debug ''Sending %PRIu64 bytes to %s:%d from %s:%d (label: %s)'' s)))
        \<and> OnSend (fst (endpoint_Send e p r)) p s
          = Debug ''Failed to send %PRIu64 bytes (status: %d, label: %s)'' s
        \<and> send_wraps (OnSend (fst (endpoint_Send e p r)) p
                   (emit (EndpointSend p r)
                      (Debug ''Sending %PRIu64 bytes to %s:%d from %s:%d (label: %s)'' s)))
            = send_wraps s)"
proof (intro conjI impI)
  assume "pkt_length p = 0"
  then show "SendPacket e l r p x s = Inr (0, s)"
    by (simp add: SendPacket_def)
next
  assume "pkt_length p \<noteq> 0 \<and> tx_loss_draw e p"
  then show "\<exists>s'. SendPacket e l r p x s = Inr (0, s')
           \<and> sent_packets (trace s') = sent_packets (trace s)
           \<and> send_wraps s' = send_wraps s \<and> stats s' = stats s"
    by (simp add: SendPacket_def Let_def Debug_def sent_packets_append)
next
  assume "pkt_length p \<noteq> 0 \<and> \<not> tx_loss_draw e p \<and> preferred_endpoint s
        \<and> endpoint_Send e p r = (0, True)"
  then show "\<exists>s'. SendPacket e l r p x s = Inr (0, s')
           \<and> sent_packets (trace s') = sent_packets (trace s) @ [p]
           \<and> send_wraps s' = send_wraps s @ [(p, x)]"
    by (simp add: SendPacket_def Let_def Debug_def emit_def sent_packets_append)
next
  assume a: "pkt_length p \<noteq> 0 \<and> \<not> tx_loss_draw e p \<and> preferred_endpoint s
        \<and> fst (endpoint_Send e p r) < 0"
  then show "SendPacket e l r p x s
          = Inr (fst (endpoint_Send e p r),
                 OnSend (fst (endpoint_Send e p r)) p
                   (emit (EndpointSend p r)
                      (Debug ''Sending %PRIu64 bytes to %s:%d from %s:%d (label: %s)'' s)))"
    by (simp add: SendPacket_def Let_def Debug_def)
  from a show "OnSend (fst (endpoint_Send e p r)) p s
          = Debug ''Failed to send %PRIu64 bytes (status: %d, label: %s)'' s"
    by (simp add: OnSend_def)
  from a show "send_wraps (OnSend (fst (endpoint_Send e p r)) p
                   (emit (EndpointSend p r)
                      (Debug ''Sending %PRIu64 bytes to %s:%d from %s:%d (label: %s)'' s)))
            = send_wraps s"
    by (simp add: OnSend_def Debug_def emit_def)
qed

theorem C9_send_packet_witness:
  "SendPacket example_env host_addr peer_addr empty_packet None example_socket
     = Inr (0, example_socket)
   \<and> (\<exists>s'. SendPacket lossy_tx_env host_addr peer_addr example_packet None example_socket
               = Inr (0, s')
          \<and> sent_packets (trace s') = [] \<and> send_wraps s' = [])
   \<and> (\<exists>s'. SendPacket example_env host_addr peer_addr example_packet (Some 1) example_socket
               = Inr (0, s')
          \<and> sent_packets (trace s') = [example_packet]
          \<and> send_wraps s' = [(example_packet, Some 1)])
   \<and> (\<exists>s'. SendPacket failing_send_env host_addr peer_addr example_packet None example_socket
               = Inr (- 22, s')
          \<and> send_wraps s' = [] \<and> stats s' = stats example_socket)"
proof -
  have s0: "sent_packets (trace example_socket) = []" "send_wraps example_socket = []"
    "preferred_endpoint example_socket"
    by (simp_all add: example_defs)
  have a: "SendPacket example_env host_addr peer_addr empty_packet None example_socket
     = Inr (0, example_socket)"
    using C9_send_packet [of empty_packet example_env host_addr peer_addr None example_socket]
    by (simp add: empty_packet_def)
  have b: "\<exists>s'. SendPacket lossy_tx_env host_addr peer_addr example_packet None example_socket
               = Inr (0, s')
          \<and> sent_packets (trace s') = [] \<and> send_wraps s' = []"
    using C9_send_packet [of example_packet lossy_tx_env host_addr peer_addr None example_socket]
      s0
    by (auto simp: example_packet_def lossy_tx_env_def)
  have c: "\<exists>s'. SendPacket example_env host_addr peer_addr example_packet (Some 1) example_socket
               = Inr (0, s')
          \<and> sent_packets (trace s') = [example_packet]
          \<and> send_wraps s' = [(example_packet, Some 1)]"
    using C9_send_packet [of example_packet example_env host_addr peer_addr "Some 1" example_socket]
      s0
    by (auto simp: example_packet_def example_env_def)
  have d: "\<exists>s'. SendPacket failing_send_env host_addr peer_addr example_packet None example_socket
               = Inr (- 22, s')
          \<and> send_wraps s' = [] \<and> stats s' = stats example_socket"
    using C9_send_packet [of example_packet failing_send_env host_addr peer_addr None example_socket]
      s0
    by (auto simp: example_packet_def failing_send_env_def short_env_def example_env_def
        OnSend_def Debug_def emit_def)
  from a b c d show ?thesis by blast
qed

subsection \<open>SendStatelessReset\<close>

lemma SendStatelessReset_rejects:
  assumes "stateless_reset_disabled s
           \<or> max_stateless_resets_per_host s \<le> GetCurrentStatelessResetCounter r s
           \<or> (1 \<le> n \<and> n - 1 < 41)"
  shows "SendStatelessReset e c l r n s = Inr (False, s)"
  using assms
  by (auto simp: SendStatelessReset_def Let_def size_t_pred_def kMinStatelessResetLen_def)

lemma SendStatelessReset_short_write:
  assumes "1 \<le> n" "n - 1 \<le> NGTCP2_MAX_PKT_SIZE" "reset_nwrite e c s < 41"
  shows "SendStatelessReset e c l r n s = Inr (False, s)"
  using assms
  by (auto simp: SendStatelessReset_def Let_def size_t_pred_def kMinStatelessResetLen_def
      QuicPacket_Create_def reset_nwrite_def)

lemma SendStatelessReset_passes:
  assumes "\<not> stateless_reset_disabled s"
    and "GetCurrentStatelessResetCounter r s < max_stateless_resets_per_host s"
    and "42 \<le> n" and "n - 1 \<le> NGTCP2_MAX_PKT_SIZE"
    and "41 \<le> reset_nwrite e c s" and "reset_nwrite e c s \<le> int (n - 1)"
  shows "SendStatelessReset e c l r n s =
           (case SendPacket e l r (reset_packet e c s) None (IncrementStatelessResetCounter r s) of
              Inl a \<Rightarrow> Inl a
            | Inr (err, s') \<Rightarrow> Inr (err = 0, s'))"
proof -
  have p: "size_t_pred n = n - 1"
    using assms(3) by (simp add: size_t_pred_def)
  have 1: "\<not> size_t_pred n < kMinStatelessResetLen"
    using assms(3) unfolding p kMinStatelessResetLen_def by arith
  have 2: "size_t_pred n \<le> NGTCP2_MAX_PKT_SIZE"
    using assms(4) unfolding p .
  have 3: "\<not> reset_nwrite e c s < int kMinStatelessResetLen"
    using assms(5) unfolding kMinStatelessResetLen_def by simp
  have 4: "nat (reset_nwrite e c s) \<le> size_t_pred n"
    using assms(6) unfolding p by arith
  have 5: "\<not> max_stateless_resets_per_host s \<le> GetCurrentStatelessResetCounter r s"
    using assms(2) by simp
  show ?thesis
    using assms(1) 1 2 3 4 5
    by (simp add: SendStatelessReset_def Let_def QuicPacket_Create_def set_length_def
        reset_nwrite_def [symmetric] reset_packet_def)
qed

lemma SendStatelessReset_sent:
  assumes "SendStatelessReset e c l r n s = Inr (ok, s')"
  shows "sent_packets (trace s') = sent_packets (trace s)
         \<or> (sent_packets (trace s') = sent_packets (trace s) @ [reset_packet e c s]
            \<and> 41 \<le> reset_nwrite e c s \<and> reset_nwrite e c s \<le> int (n - 1) \<and> 42 \<le> n)"
proof (cases "stateless_reset_disabled s
           \<or> max_stateless_resets_per_host s \<le> GetCurrentStatelessResetCounter r s
           \<or> size_t_pred n < 41 \<or> reset_nwrite e c s < 41")
  case True
  with assms have "s' = s"
    by (auto simp: SendStatelessReset_def Let_def kMinStatelessResetLen_def reset_nwrite_def
        split: if_splits sum.splits)
  then show ?thesis by simp
next
  case False
  with assms have c: "size_t_pred n \<le> NGTCP2_MAX_PKT_SIZE"
    by (auto simp: SendStatelessReset_def Let_def kMinStatelessResetLen_def QuicPacket_Create_def
        split: if_splits sum.splits)
  have n: "42 \<le> n \<and> size_t_pred n = n - 1"
  proof (cases "n = 0")
    case True
    with c show ?thesis
      by (simp add: size_t_pred_def SIZE_MAX_def NGTCP2_MAX_PKT_SIZE_def)
  next
    case False
    with \<open>\<not> (stateless_reset_disabled s
           \<or> max_stateless_resets_per_host s \<le> GetCurrentStatelessResetCounter r s
           \<or> size_t_pred n < 41 \<or> reset_nwrite e c s < 41)\<close>
    have "size_t_pred n = n - 1" and "\<not> n - 1 < 41"
      by (simp_all add: size_t_pred_def)
    then show ?thesis by arith
  qed
  from assms False c n have w: "reset_nwrite e c s \<le> int (n - 1)"
    by (auto simp: SendStatelessReset_def Let_def kMinStatelessResetLen_def QuicPacket_Create_def
        set_length_def reset_nwrite_def split: if_splits sum.splits)
  from False c n w have
    "SendStatelessReset e c l r n s =
           (case SendPacket e l r (reset_packet e c s) None (IncrementStatelessResetCounter r s) of
              Inl a \<Rightarrow> Inl a
            | Inr (err, s') \<Rightarrow> Inr (err = 0, s'))"
    by (intro SendStatelessReset_passes) auto
  with assms obtain err where
    "SendPacket e l r (reset_packet e c s) None (IncrementStatelessResetCounter r s) = Inr (err, s')"
    by (auto split: sum.splits)
  from SendPacket_sent [OF this] False w n show ?thesis
    by (auto simp: IncrementStatelessResetCounter_def)
qed

text \<open>
  C7, as the spec states it: whenever \<open>SendStatelessReset\<close> emits, the emitted packet
  has length exactly \<open>source_len - 1\<close>. This fails: the packet is cut to the byte count
  the encoder returns, and the encoder is given the 25 random bytes and the token, not
  the triggering packet's length; for a 1200-byte datagram the reset has 41 bytes.
\<close>

theorem C7_counterexample:
  "observe_result (\<lambda>s. map pkt_length (sent_packets (trace s)))
     (SendStatelessReset example_env (replicate 8 0xD1) host_addr peer_addr 1200 example_socket)
   = Some (True, [41])
   \<and> (41 :: nat) \<noteq> 1200 - 1"
  by (simp add: observe_result_def model_defs example_defs Let_def)

text \<open>
  C7, amended: \<open>SendStatelessReset\<close> returns false, leaving the socket as it was (no
  packet emitted), whenever stateless reset is disabled, or the peer's reset counter
  has reached \<open>max_stateless_resets_per_host\<close>, or \<open>source_len - 1 < 41\<close> (for a
  \<open>source_len\<close> of at least 1, as every datagram has), or the encoder writes fewer than
  41 bytes; and whenever it does emit, it emits one packet, whose length is the byte
  count returned by the encoder, at least 41 and at most \<open>source_len - 1\<close>, so strictly
  smaller than the triggering packet.
\<close>

theorem C7_stateless_reset_length:
  "(stateless_reset_disabled s
      \<or> max_stateless_resets_per_host s \<le> GetCurrentStatelessResetCounter r s
      \<or> (1 \<le> n \<and> n - 1 < 41)
      \<or> (1 \<le> n \<and> n - 1 \<le> NGTCP2_MAX_PKT_SIZE \<and> reset_nwrite e c s < 41)
    \<longrightarrow> SendStatelessReset e c l r n s = Inr (False, s))
   \<and> (SendStatelessReset e c l r n s = Inr (ok, s') \<longrightarrow>
        sent_packets (trace s') = sent_packets (trace s)
        \<or> (sent_packets (trace s') = sent_packets (trace s) @ [reset_packet e c s]
           \<and> int (pkt_length (reset_packet e c s)) = reset_nwrite e c s
           \<and> 41 \<le> pkt_length (reset_packet e c s)
           \<and> pkt_length (reset_packet e c s) \<le> n - 1
           \<and> pkt_length (reset_packet e c s) < n))"
proof (intro conjI impI)
  assume "stateless_reset_disabled s
      \<or> max_stateless_resets_per_host s \<le> GetCurrentStatelessResetCounter r s
      \<or> (1 \<le> n \<and> n - 1 < 41)
      \<or> (1 \<le> n \<and> n - 1 \<le> NGTCP2_MAX_PKT_SIZE \<and> reset_nwrite e c s < 41)"
  then show "SendStatelessReset e c l r n s = Inr (False, s)"
    using SendStatelessReset_rejects [of s r n e c l] SendStatelessReset_short_write [of n e c s l r]
    by blast
next
  assume "SendStatelessReset e c l r n s = Inr (ok, s')"
  from SendStatelessReset_sent [OF this]
  show "sent_packets (trace s') = sent_packets (trace s)
        \<or> (sent_packets (trace s') = sent_packets (trace s) @ [reset_packet e c s]
           \<and> int (pkt_length (reset_packet e c s)) = reset_nwrite e c s
           \<and> 41 \<le> pkt_length (reset_packet e c s)
           \<and> pkt_length (reset_packet e c s) \<le> n - 1
           \<and> pkt_length (reset_packet e c s) < n)"
    by (auto simp: reset_packet_def)
qed

theorem C7_stateless_reset_length_witness:
  "SendStatelessReset example_env (replicate 8 0xD1) host_addr peer_addr 41 example_socket
     = Inr (False, example_socket)
   \<and> SendStatelessReset mute_env (replicate 8 0xD1) host_addr peer_addr 1200 example_socket
     = Inr (False, example_socket)
   \<and> (\<exists>s'. SendStatelessReset example_env (replicate 8 0xD1) host_addr peer_addr 1200
              example_socket = Inr (True, s')
        \<and> sent_packets (trace s') = [reset_packet example_env (replicate 8 0xD1) example_socket]
        \<and> 41 \<le> pkt_length (reset_packet example_env (replicate 8 0xD1) example_socket)
        \<and> pkt_length (reset_packet example_env (replicate 8 0xD1) example_socket) \<le> 1200 - 1)"
proof -
  let ?c = "replicate 8 (0xD1 :: byte)"
  have n: "reset_nwrite mute_env ?c example_socket < 41"
    by (simp add: reset_nwrite_def mute_env_def example_defs)
  have a: "SendStatelessReset example_env ?c host_addr peer_addr 41 example_socket
     = Inr (False, example_socket)"
    using C7_stateless_reset_length [of example_socket peer_addr 41 example_env ?c host_addr]
    by simp
  have b: "SendStatelessReset mute_env ?c host_addr peer_addr 1200 example_socket
     = Inr (False, example_socket)"
    using C7_stateless_reset_length [of example_socket peer_addr 1200 mute_env ?c host_addr] n
    by (simp add: NGTCP2_MAX_PKT_SIZE_def)
  have "observe_result (\<lambda>s. sent_packets (trace s))
        (SendStatelessReset example_env ?c host_addr peer_addr 1200 example_socket)
     = Some (True, [reset_packet example_env ?c example_socket])"
    by (simp add: observe_result_def model_defs example_defs Let_def reset_packet_def
        reset_nwrite_def)
  then obtain s' where
    r: "SendStatelessReset example_env ?c host_addr peer_addr 1200 example_socket = Inr (True, s')"
    and t: "sent_packets (trace s') = [reset_packet example_env ?c example_socket]"
    by (auto simp: observe_result_def split: sum.splits)
  have e: "sent_packets (trace example_socket) = []"
    by (simp add: example_defs)
  from C7_stateless_reset_length
    [of example_socket peer_addr 1200 example_env ?c host_addr True s'] r t e
  have "41 \<le> pkt_length (reset_packet example_env ?c example_socket)
        \<and> pkt_length (reset_packet example_env ?c example_socket) \<le> 1200 - 1"
    by simp
  with a b r t show ?thesis by blast
qed

lemma counter_after_increment:
  "GetCurrentStatelessResetCounter r (IncrementStatelessResetCounter r s)
     = GetCurrentStatelessResetCounter r s + 1"
  by (simp add: IncrementStatelessResetCounter_def GetCurrentStatelessResetCounter_def)

lemma SendPacket_sync_failure:
  assumes "pkt_length p \<noteq> 0" "\<not> tx_loss_draw e p" "preferred_endpoint s"
    "fst (endpoint_Send e p r) < 0"
  shows "SendPacket e l r p x s
          = Inr (fst (endpoint_Send e p r),
                 Debug ''Failed to send %PRIu64 bytes (status: %d, label: %s)''
                   (emit (EndpointSend p r)
                      (Debug ''Sending %PRIu64 bytes to %s:%d from %s:%d (label: %s)'' s)))"
  using assms by (simp add: SendPacket_def Let_def Debug_def OnSend_def)

lemma accept_path_after_reset:
  assumes A: "AcceptInitialPacket e v c sc nread b l r s0 = Inr (None, s1)"
    and S: "SendStatelessReset e c l r (as_size_t nread)
              (Debug ''Unable to create a new server QuicSession.'' s1) = Inr (ok, s')"
  shows "accept_path e True v c sc nread b l r s0
           = Inr (if ok
                  then IncrementSocketStat 1 stateless_reset_count_update
                         (Debug ''Sent stateless reset'' s')
                  else IncrementSocketStat 1 packets_ignored_update s')"
  using A S by (cases ok) (simp_all add: accept_path_def Let_def)

lemma accept_path_reset_charges:
  assumes A: "AcceptInitialPacket e v c sc nread b l r s0 = Inr (None, s1)"
    and S: "SendStatelessReset e c l r (as_size_t nread)
              (Debug ''Unable to create a new server QuicSession.'' s1) = Inr (ok, s')"
  shows "\<exists>s''. accept_path e True v c sc nread b l r s0 = Inr s''
           \<and> stateless_reset_count (stats s'')
               = stateless_reset_count (stats s0) + (if ok then 1 else 0)
           \<and> packets_ignored (stats s'')
               = packets_ignored (stats s0) + (if ok then 0 else 1)
           \<and> reset_counts s'' = reset_counts s'"
proof -
  let ?s = "Debug ''Unable to create a new server QuicSession.'' s1"
  have t0: "stateless_reset_count (stats ?s) = stateless_reset_count (stats s0)
            \<and> packets_ignored (stats ?s) = packets_ignored (stats s0)"
    using AcceptInitialPacket_charges [OF A] by (simp add: same_charges_def Debug_def)
  have t1: "stateless_reset_count (stats s') = stateless_reset_count (stats ?s)
            \<and> packets_ignored (stats s') = packets_ignored (stats ?s)"
    using SendStatelessReset_charges [OF S] by (simp add: same_charges_def)
  show ?thesis
    using accept_path_after_reset [OF A S] t0 t1
    by (cases ok) (simp_all add: IncrementSocketStat_def Debug_def)
qed


lemma SendPacket_tx_loss:
  assumes "pkt_length p \<noteq> 0" "tx_loss_draw e p"
  shows "SendPacket e l r p x s
          = Inr (0, Debug ''Simulating transmitted packet loss.''
                      (Debug ''Sending %PRIu64 bytes to %s:%d from %s:%d (label: %s)'' s))"
  using assms by (simp add: SendPacket_def Let_def)

lemma SendPacket_queued:
  assumes "pkt_length p \<noteq> 0" "\<not> tx_loss_draw e p" "preferred_endpoint s"
    "endpoint_Send e p r = (0, True)"
  shows "SendPacket e l r p x s
          = Inr (0, (emit (EndpointSend p r)
                       (Debug ''Sending %PRIu64 bytes to %s:%d from %s:%d (label: %s)'' s))
                    \<lparr>send_wraps := send_wraps s @ [(p, x)]\<rparr>)"
  using assms by (simp add: SendPacket_def Let_def Debug_def emit_def)

text \<open>
  C10. Once the three guards of \<open>SendStatelessReset\<close> pass and the encoder writes at
  least 41 bytes (and no more than the packet holds), the peer's reset counter is
  incremented exactly once, before the packet is handed to \<open>SendPacket\<close>; whatever
  \<open>SendPacket\<close> returns, the counter stays incremented. \<open>SendStatelessReset\<close> reports
  success exactly when \<open>SendPacket\<close> returns 0: when the endpoint queues the packet, and
  also when the tx-loss draw drops it, nothing then being handed to the endpoint. When
  the endpoint's send fails at once, \<open>SendStatelessReset\<close> returns false with the
  counter incremented and the statistics untouched. The caller in \<open>OnReceive\<close> charges
  \<open>stateless_reset_count\<close> by one, and \<open>packets_ignored\<close> not at all, when success
  is reported, and \<open>packets_ignored\<close> by one, and \<open>stateless_reset_count\<close> not at
  all, when it is not: the per-peer counter counts attempts, the statistic counts the
  attempts for which \<open>SendPacket\<close> returned 0.
\<close>

theorem C10_reset_counter_counts_attempts:
  assumes "\<not> stateless_reset_disabled s"
    and "GetCurrentStatelessResetCounter r s < max_stateless_resets_per_host s"
    and "42 \<le> n" and "n - 1 \<le> NGTCP2_MAX_PKT_SIZE"
    and "41 \<le> reset_nwrite e c s" and "reset_nwrite e c s \<le> int (n - 1)"
  shows "SendStatelessReset e c l r n s =
           (case SendPacket e l r (reset_packet e c s) None (IncrementStatelessResetCounter r s) of
              Inl a \<Rightarrow> Inl a
            | Inr (err, s') \<Rightarrow> Inr (err = 0, s'))
         \<and> GetCurrentStatelessResetCounter r (IncrementStatelessResetCounter r s)
             = GetCurrentStatelessResetCounter r s + 1
         \<and> (\<forall>ok s'. SendStatelessReset e c l r n s = Inr (ok, s') \<longrightarrow>
              GetCurrentStatelessResetCounter r s' = GetCurrentStatelessResetCounter r s + 1)
         \<and> (\<not> tx_loss_draw e (reset_packet e c s) \<and> preferred_endpoint s
              \<and> fst (endpoint_Send e (reset_packet e c s) r) < 0 \<longrightarrow>
             (\<exists>s'. SendStatelessReset e c l r n s = Inr (False, s')
                \<and> GetCurrentStatelessResetCounter r s' = GetCurrentStatelessResetCounter r s + 1
                \<and> stats s' = stats s))
         \<and> (\<forall>v sc nread b s0 s1.
               AcceptInitialPacket e v c sc nread b l r s0 = Inr (None, s1)
               \<and> s = Debug ''Unable to create a new server QuicSession.'' s1
               \<and> n = as_size_t nread
               \<and> \<not> tx_loss_draw e (reset_packet e c s) \<and> preferred_endpoint s
               \<and> fst (endpoint_Send e (reset_packet e c s) r) < 0 \<longrightarrow>
               (\<exists>s''. accept_path e True v c sc nread b l r s0 = Inr s''
                  \<and> stateless_reset_count (stats s'') = stateless_reset_count (stats s0)
                  \<and> packets_ignored (stats s'') = packets_ignored (stats s0) + 1
                  \<and> GetCurrentStatelessResetCounter r s''
                      = GetCurrentStatelessResetCounter r s0 + 1))
         \<and> (\<forall>err s'. SendPacket e l r (reset_packet e c s) None
                         (IncrementStatelessResetCounter r s) = Inr (err, s') \<longrightarrow>
               SendStatelessReset e c l r n s = Inr (err = 0, s'))
         \<and> (tx_loss_draw e (reset_packet e c s) \<longrightarrow>
             (\<exists>s'. SendStatelessReset e c l r n s = Inr (True, s')
                \<and> sent_packets (trace s') = sent_packets (trace s)
                \<and> GetCurrentStatelessResetCounter r s' = GetCurrentStatelessResetCounter r s + 1
                \<and> stats s' = stats s))
         \<and> (\<not> tx_loss_draw e (reset_packet e c s) \<and> preferred_endpoint s
              \<and> endpoint_Send e (reset_packet e c s) r = (0, True) \<longrightarrow>
             (\<exists>s'. SendStatelessReset e c l r n s = Inr (True, s')
                \<and> sent_packets (trace s') = sent_packets (trace s) @ [reset_packet e c s]
                \<and> GetCurrentStatelessResetCounter r s' = GetCurrentStatelessResetCounter r s + 1
                \<and> stats s' = stats s))
         \<and> (\<forall>v sc nread b s0 s1 ok s'.
               AcceptInitialPacket e v c sc nread b l r s0 = Inr (None, s1)
               \<and> s = Debug ''Unable to create a new server QuicSession.'' s1
               \<and> n = as_size_t nread
               \<and> SendStatelessReset e c l r n s = Inr (ok, s') \<longrightarrow>
               (\<exists>s''. accept_path e True v c sc nread b l r s0 = Inr s''
                  \<and> stateless_reset_count (stats s'')
                      = stateless_reset_count (stats s0) + (if ok then 1 else 0)
                  \<and> packets_ignored (stats s'')
                      = packets_ignored (stats s0) + (if ok then 0 else 1)
                  \<and> GetCurrentStatelessResetCounter r s''
                      = GetCurrentStatelessResetCounter r s0 + 1))"
proof -
  have eq: "SendStatelessReset e c l r n s =
           (case SendPacket e l r (reset_packet e c s) None (IncrementStatelessResetCounter r s) of
              Inl a \<Rightarrow> Inl a
            | Inr (err, s') \<Rightarrow> Inr (err = 0, s'))"
    using assms by (rule SendStatelessReset_passes)
  have inc: "GetCurrentStatelessResetCounter r (IncrementStatelessResetCounter r s)
             = GetCurrentStatelessResetCounter r s + 1"
    by (rule counter_after_increment)
  have every: "GetCurrentStatelessResetCounter r s' = GetCurrentStatelessResetCounter r s + 1"
    if "SendStatelessReset e c l r n s = Inr (ok, s')" for ok s'
  proof -
    from that eq obtain err where
      "SendPacket e l r (reset_packet e c s) None (IncrementStatelessResetCounter r s)
         = Inr (err, s')"
      by (auto split: sum.splits)
    from SendPacket_resets [OF this] show ?thesis
      using inc by (simp add: same_resets_def GetCurrentStatelessResetCounter_def)
  qed
  have sf: "\<exists>s'. SendStatelessReset e c l r n s = Inr (False, s')
                \<and> GetCurrentStatelessResetCounter r s' = GetCurrentStatelessResetCounter r s + 1
                \<and> stats s' = stats s"
    if f: "\<not> tx_loss_draw e (reset_packet e c s) \<and> preferred_endpoint s
              \<and> fst (endpoint_Send e (reset_packet e c s) r) < 0"
  proof -
    have len: "pkt_length (reset_packet e c s) \<noteq> 0"
      using assms(5) by (simp add: reset_packet_def)
    have pe: "preferred_endpoint (IncrementStatelessResetCounter r s)"
      using f by (simp add: IncrementStatelessResetCounter_def)
    from SendPacket_sync_failure [OF len _ pe, of e r l None] f eq
    show ?thesis
      by (simp add: Debug_def emit_def IncrementStatelessResetCounter_def
          GetCurrentStatelessResetCounter_def)
  qed
  have caller: "\<exists>s''. accept_path e True v c sc nread b l r s0 = Inr s''
                  \<and> stateless_reset_count (stats s'') = stateless_reset_count (stats s0)
                  \<and> packets_ignored (stats s'') = packets_ignored (stats s0) + 1
                  \<and> GetCurrentStatelessResetCounter r s''
                      = GetCurrentStatelessResetCounter r s0 + 1"
    if h: "AcceptInitialPacket e v c sc nread b l r s0 = Inr (None, s1)
               \<and> s = Debug ''Unable to create a new server QuicSession.'' s1
               \<and> n = as_size_t nread
               \<and> \<not> tx_loss_draw e (reset_packet e c s) \<and> preferred_endpoint s
               \<and> fst (endpoint_Send e (reset_packet e c s) r) < 0"
    for v sc nread b s0 s1
  proof -
    from h have A: "AcceptInitialPacket e v c sc nread b l r s0 = Inr (None, s1)"
      and s: "s = Debug ''Unable to create a new server QuicSession.'' s1"
      and n: "n = as_size_t nread" by blast+
    from h have "\<not> tx_loss_draw e (reset_packet e c s) \<and> preferred_endpoint s
              \<and> fst (endpoint_Send e (reset_packet e c s) r) < 0" by blast
    from sf [OF this] obtain s' where
      S: "SendStatelessReset e c l r n s = Inr (False, s')"
      and c: "GetCurrentStatelessResetCounter r s' = GetCurrentStatelessResetCounter r s + 1"
      and t: "stats s' = stats s" by blast
    have p: "accept_path e True v c sc nread b l r s0
               = Inr (IncrementSocketStat 1 packets_ignored_update s')"
      using A S unfolding s n by (simp add: accept_path_def Let_def)
    have c0: "GetCurrentStatelessResetCounter r s = GetCurrentStatelessResetCounter r s0"
      using AcceptInitialPacket_resets [OF A] unfolding s
      by (simp add: same_resets_def GetCurrentStatelessResetCounter_def Debug_def)
    have t0: "stateless_reset_count (stats s) = stateless_reset_count (stats s0)
              \<and> packets_ignored (stats s) = packets_ignored (stats s0)"
      using AcceptInitialPacket_charges [OF A] unfolding s
      by (simp add: same_charges_def Debug_def)
    show ?thesis
      using p c t c0 t0
      by (simp add: IncrementSocketStat_def GetCurrentStatelessResetCounter_def)
  qed
  have len: "pkt_length (reset_packet e c s) \<noteq> 0"
    using assms(5) by (simp add: reset_packet_def)
  have means: "SendStatelessReset e c l r n s = Inr (err = 0, s')"
    if "SendPacket e l r (reset_packet e c s) None (IncrementStatelessResetCounter r s)
          = Inr (err, s')" for err s'
    using that eq by simp
  have lost: "\<exists>s'. SendStatelessReset e c l r n s = Inr (True, s')
                \<and> sent_packets (trace s') = sent_packets (trace s)
                \<and> GetCurrentStatelessResetCounter r s' = GetCurrentStatelessResetCounter r s + 1
                \<and> stats s' = stats s"
    if "tx_loss_draw e (reset_packet e c s)"
    using SendPacket_tx_loss [OF len that, of l r None "IncrementStatelessResetCounter r s"] eq
    by (simp add: Debug_def IncrementStatelessResetCounter_def sent_packets_append
        GetCurrentStatelessResetCounter_def)
  have queued: "\<exists>s'. SendStatelessReset e c l r n s = Inr (True, s')
                \<and> sent_packets (trace s') = sent_packets (trace s) @ [reset_packet e c s]
                \<and> GetCurrentStatelessResetCounter r s' = GetCurrentStatelessResetCounter r s + 1
                \<and> stats s' = stats s"
    if q: "\<not> tx_loss_draw e (reset_packet e c s) \<and> preferred_endpoint s
              \<and> endpoint_Send e (reset_packet e c s) r = (0, True)"
  proof -
    have pe: "preferred_endpoint (IncrementStatelessResetCounter r s)"
      using q by (simp add: IncrementStatelessResetCounter_def)
    from q have nl: "\<not> tx_loss_draw e (reset_packet e c s)"
      and es: "endpoint_Send e (reset_packet e c s) r = (0, True)" by blast+
    from SendPacket_queued [OF len nl pe es, of l None] eq show ?thesis
      by (simp add: Debug_def emit_def IncrementStatelessResetCounter_def sent_packets_append
          GetCurrentStatelessResetCounter_def)
  qed
  have charge: "\<exists>s''. accept_path e True v c sc nread b l r s0 = Inr s''
                  \<and> stateless_reset_count (stats s'')
                      = stateless_reset_count (stats s0) + (if ok then 1 else 0)
                  \<and> packets_ignored (stats s'')
                      = packets_ignored (stats s0) + (if ok then 0 else 1)
                  \<and> GetCurrentStatelessResetCounter r s''
                      = GetCurrentStatelessResetCounter r s0 + 1"
    if h: "AcceptInitialPacket e v c sc nread b l r s0 = Inr (None, s1)
               \<and> s = Debug ''Unable to create a new server QuicSession.'' s1
               \<and> n = as_size_t nread
               \<and> SendStatelessReset e c l r n s = Inr (ok, s')"
    for v sc nread b s0 s1 ok s'
  proof -
    from h have A: "AcceptInitialPacket e v c sc nread b l r s0 = Inr (None, s1)"
      and s: "s = Debug ''Unable to create a new server QuicSession.'' s1"
      and n: "n = as_size_t nread"
      and S: "SendStatelessReset e c l r n s = Inr (ok, s')" by blast+
    have c: "GetCurrentStatelessResetCounter r s' = GetCurrentStatelessResetCounter r s + 1"
      using S by (rule every)
    have c0: "GetCurrentStatelessResetCounter r s = GetCurrentStatelessResetCounter r s0"
      using AcceptInitialPacket_resets [OF A] unfolding s
      by (simp add: same_resets_def GetCurrentStatelessResetCounter_def Debug_def)
    from accept_path_reset_charges [OF A S [unfolded s n]] c c0 show ?thesis
      by (auto simp: GetCurrentStatelessResetCounter_def)
  qed
  from eq inc every sf caller means lost queued charge show ?thesis
    by blast
qed

theorem C10_reset_counter_counts_attempts_witness:
  "(\<exists>s'. SendStatelessReset failing_send_env (replicate 8 0xD1) host_addr peer_addr 42
            example_socket = Inr (False, s')
      \<and> GetCurrentStatelessResetCounter peer_addr s' = 1
      \<and> stateless_reset_count (stats s') = 0)
   \<and> (\<exists>s'. accept_path failing_send_env True NGTCP2_PROTO_VER (replicate 8 0xD1) [] 42
            (dg_buf short_datagram) host_addr peer_addr example_socket = Inr s'
      \<and> stateless_reset_count (stats s') = 0
      \<and> packets_ignored (stats s') = 1
      \<and> GetCurrentStatelessResetCounter peer_addr s' = 1)
   \<and> (\<exists>s'. accept_path short_env True NGTCP2_PROTO_VER (replicate 8 0xD1) [] 42
            (dg_buf short_datagram) host_addr peer_addr example_socket = Inr s'
      \<and> stateless_reset_count (stats s') = 1
      \<and> packets_ignored (stats s') = 0
      \<and> GetCurrentStatelessResetCounter peer_addr s' = 1
      \<and> map pkt_length (sent_packets (trace s')) = [41])
   \<and> (\<exists>s'. accept_path lossy_tx_env True NGTCP2_PROTO_VER (replicate 8 0xD1) [] 42
            (dg_buf short_datagram) host_addr peer_addr example_socket = Inr s'
      \<and> stateless_reset_count (stats s') = 1
      \<and> packets_ignored (stats s') = 0
      \<and> GetCurrentStatelessResetCounter peer_addr s' = 1
      \<and> sent_packets (trace s') = [])"
proof -
  let ?c = "replicate 8 (0xD1 :: byte)"
  let ?s1 = "Debug ''QuicSocket is not listening'' example_socket"
  let ?s = "Debug ''Unable to create a new server QuicSession.'' ?s1"
  have w: "reset_nwrite failing_send_env ?c example_socket = 41"
    "reset_nwrite failing_send_env ?c ?s = 41"
    by (simp_all add: reset_nwrite_def failing_send_env_def example_defs kRandlen_def
        NGTCP2_MIN_STATELESS_RESET_RANDLEN_def NGTCP2_MAX_PKTLEN_IPV4_def Debug_def)
  have g: "\<not> stateless_reset_disabled example_socket"
    "GetCurrentStatelessResetCounter peer_addr example_socket = 0"
    "max_stateless_resets_per_host example_socket = 3"
    "preferred_endpoint example_socket"
    "stats example_socket = \<lparr>bytes_received = 0, bytes_sent = 0, packets_received = 0,
        packets_sent = 0, packets_ignored = 0, stateless_reset_count = 0\<rparr>"
    by (simp_all add: example_defs GetCurrentStatelessResetCounter_def)
  have f: "\<not> tx_loss_draw failing_send_env p" "fst (endpoint_Send failing_send_env p a) < 0" for p a
    by (simp_all add: failing_send_env_def short_env_def example_env_def)
  have A: "AcceptInitialPacket failing_send_env NGTCP2_PROTO_VER ?c [] 42
             (dg_buf short_datagram) host_addr peer_addr example_socket = Inr (None, ?s1)"
    by (simp add: AcceptInitialPacket_def example_defs)
  have h: "(42 :: nat) \<le> 42" "(42 :: nat) - 1 \<le> NGTCP2_MAX_PKT_SIZE"
    by (simp_all add: NGTCP2_MAX_PKT_SIZE_def)
  have w1: "41 \<le> reset_nwrite failing_send_env ?c example_socket"
    "reset_nwrite failing_send_env ?c example_socket \<le> int (42 - 1)"
    using w(1) by simp_all
  have w2: "41 \<le> reset_nwrite failing_send_env ?c ?s"
    "reset_nwrite failing_send_env ?c ?s \<le> int (42 - 1)"
    using w(2) by simp_all
  have lt: "GetCurrentStatelessResetCounter peer_addr example_socket
              < max_stateless_resets_per_host example_socket"
    using g by simp
  note T1 = C10_reset_counter_counts_attempts
      [of example_socket peer_addr 42 failing_send_env ?c host_addr,
       OF g(1) lt h(1) h(2) w1]
  from T1 [THEN conjunct2, THEN conjunct2, THEN conjunct2, THEN conjunct1] f g(4) have "\<exists>s'. SendStatelessReset failing_send_env ?c host_addr peer_addr 42
            example_socket = Inr (False, s')
      \<and> GetCurrentStatelessResetCounter peer_addr s'
           = GetCurrentStatelessResetCounter peer_addr example_socket + 1
      \<and> stats s' = stats example_socket"
    by blast
  then have first: "\<exists>s'. SendStatelessReset failing_send_env ?c host_addr peer_addr 42
            example_socket = Inr (False, s')
      \<and> GetCurrentStatelessResetCounter peer_addr s' = 1
      \<and> stateless_reset_count (stats s') = 0"
    using g by auto
  have g': "\<not> stateless_reset_disabled ?s"
    "GetCurrentStatelessResetCounter peer_addr ?s < max_stateless_resets_per_host ?s"
    "preferred_endpoint ?s"
    using g by (simp_all add: Debug_def GetCurrentStatelessResetCounter_def)
  have n: "(42 :: nat) = as_size_t 42" by (simp add: as_size_t_def)
  note T2 = C10_reset_counter_counts_attempts
      [of ?s peer_addr 42 failing_send_env ?c host_addr,
       OF g'(1) g'(2) h(1) h(2) w2]
  from T2 [THEN conjunct2, THEN conjunct2, THEN conjunct2, THEN conjunct2, THEN conjunct1] have "AcceptInitialPacket failing_send_env NGTCP2_PROTO_VER ?c [] 42
                 (dg_buf short_datagram) host_addr peer_addr example_socket = Inr (None, ?s1)
               \<and> ?s = Debug ''Unable to create a new server QuicSession.'' ?s1
               \<and> (42 :: nat) = as_size_t 42
               \<and> \<not> tx_loss_draw failing_send_env (reset_packet failing_send_env ?c ?s)
               \<and> preferred_endpoint ?s
               \<and> fst (endpoint_Send failing_send_env (reset_packet failing_send_env ?c ?s) peer_addr) < 0
               \<longrightarrow>
               (\<exists>s''. accept_path failing_send_env True NGTCP2_PROTO_VER ?c [] 42
                    (dg_buf short_datagram) host_addr peer_addr example_socket = Inr s''
                  \<and> stateless_reset_count (stats s'') = stateless_reset_count (stats example_socket)
                  \<and> packets_ignored (stats s'') = packets_ignored (stats example_socket) + 1
                  \<and> GetCurrentStatelessResetCounter peer_addr s''
                      = GetCurrentStatelessResetCounter peer_addr example_socket + 1)"
    by blast
  with A n g'(3) f have "\<exists>s''. accept_path failing_send_env True NGTCP2_PROTO_VER ?c [] 42
                    (dg_buf short_datagram) host_addr peer_addr example_socket = Inr s''
                  \<and> stateless_reset_count (stats s'') = stateless_reset_count (stats example_socket)
                  \<and> packets_ignored (stats s'') = packets_ignored (stats example_socket) + 1
                  \<and> GetCurrentStatelessResetCounter peer_addr s''
                      = GetCurrentStatelessResetCounter peer_addr example_socket + 1"
    by blast
  then have second: "\<exists>s'. accept_path failing_send_env True NGTCP2_PROTO_VER ?c [] 42
            (dg_buf short_datagram) host_addr peer_addr example_socket = Inr s'
      \<and> stateless_reset_count (stats s') = 0
      \<and> packets_ignored (stats s') = 1
      \<and> GetCurrentStatelessResetCounter peer_addr s' = 1"
    using g by auto
  have third: "\<exists>s'. accept_path short_env True NGTCP2_PROTO_VER ?c [] 42
            (dg_buf short_datagram) host_addr peer_addr example_socket = Inr s'
      \<and> stateless_reset_count (stats s') = 1
      \<and> packets_ignored (stats s') = 0
      \<and> GetCurrentStatelessResetCounter peer_addr s' = 1
      \<and> map pkt_length (sent_packets (trace s')) = [41]"
  proof -
    have w3: "41 \<le> reset_nwrite short_env ?c ?s"
      "reset_nwrite short_env ?c ?s \<le> int (42 - 1)"
      by (simp_all add: reset_nwrite_def example_defs kRandlen_def
          NGTCP2_MIN_STATELESS_RESET_RANDLEN_def NGTCP2_MAX_PKTLEN_IPV4_def Debug_def)
    have q: "\<not> tx_loss_draw short_env p" "endpoint_Send short_env p a = (0, True)" for p a
      by (simp_all add: short_env_def example_env_def)
    have A3: "AcceptInitialPacket short_env NGTCP2_PROTO_VER ?c [] 42
             (dg_buf short_datagram) host_addr peer_addr example_socket = Inr (None, ?s1)"
      by (simp add: AcceptInitialPacket_def example_defs)
    note T3 = C10_reset_counter_counts_attempts [of ?s peer_addr 42 short_env ?c host_addr, OF g'(1) g'(2) h(1) h(2) w3]
    from T3 [THEN conjunct2, THEN conjunct2, THEN conjunct2, THEN conjunct2, THEN conjunct2, THEN conjunct2, THEN conjunct2, THEN conjunct1] q g'(3) obtain s' where
      S3: "SendStatelessReset short_env ?c host_addr peer_addr 42 ?s = Inr (True, s')"
      by blast
    from T3 [THEN conjunct2, THEN conjunct2, THEN conjunct2, THEN conjunct2, THEN conjunct2, THEN conjunct2, THEN conjunct2, THEN conjunct2] A3 n S3 have "\<exists>s''. accept_path short_env True NGTCP2_PROTO_VER ?c [] 42
                    (dg_buf short_datagram) host_addr peer_addr example_socket = Inr s''
                  \<and> stateless_reset_count (stats s'')
                      = stateless_reset_count (stats example_socket) + (if True then 1 else 0)
                  \<and> packets_ignored (stats s'')
                      = packets_ignored (stats example_socket) + (if True then 0 else 1)
                  \<and> GetCurrentStatelessResetCounter peer_addr s''
                      = GetCurrentStatelessResetCounter peer_addr example_socket + 1"
      by blast
    moreover have "observe (\<lambda>s. map pkt_length (sent_packets (trace s)))
        (accept_path short_env True NGTCP2_PROTO_VER ?c [] 42
            (dg_buf short_datagram) host_addr peer_addr example_socket) = Some [41]"
      by (simp add: observe_def model_defs example_defs Let_def)
    ultimately show ?thesis
      using g by (auto simp: observe_def)
  qed
  have fourth: "\<exists>s'. accept_path lossy_tx_env True NGTCP2_PROTO_VER ?c [] 42
            (dg_buf short_datagram) host_addr peer_addr example_socket = Inr s'
      \<and> stateless_reset_count (stats s') = 1
      \<and> packets_ignored (stats s') = 0
      \<and> GetCurrentStatelessResetCounter peer_addr s' = 1
      \<and> sent_packets (trace s') = []"
  proof -
    have w4: "41 \<le> reset_nwrite lossy_tx_env ?c ?s"
      "reset_nwrite lossy_tx_env ?c ?s \<le> int (42 - 1)"
      by (simp_all add: reset_nwrite_def lossy_tx_env_def example_defs kRandlen_def
          NGTCP2_MIN_STATELESS_RESET_RANDLEN_def NGTCP2_MAX_PKTLEN_IPV4_def Debug_def)
    have q: "tx_loss_draw lossy_tx_env p" for p
      by (simp add: lossy_tx_env_def)
    have A4: "AcceptInitialPacket lossy_tx_env NGTCP2_PROTO_VER ?c [] 42
             (dg_buf short_datagram) host_addr peer_addr example_socket = Inr (None, ?s1)"
      by (simp add: AcceptInitialPacket_def example_defs)
    note T4 = C10_reset_counter_counts_attempts [of ?s peer_addr 42 lossy_tx_env ?c host_addr, OF g'(1) g'(2) h(1) h(2) w4]
    from T4 [THEN conjunct2, THEN conjunct2, THEN conjunct2, THEN conjunct2, THEN conjunct2, THEN conjunct2, THEN conjunct1] q obtain s' where
      S4: "SendStatelessReset lossy_tx_env ?c host_addr peer_addr 42 ?s = Inr (True, s')"
      by blast
    from T4 [THEN conjunct2, THEN conjunct2, THEN conjunct2, THEN conjunct2, THEN conjunct2, THEN conjunct2, THEN conjunct2, THEN conjunct2] A4 n S4 have "\<exists>s''. accept_path lossy_tx_env True NGTCP2_PROTO_VER ?c [] 42
                    (dg_buf short_datagram) host_addr peer_addr example_socket = Inr s''
                  \<and> stateless_reset_count (stats s'')
                      = stateless_reset_count (stats example_socket) + (if True then 1 else 0)
                  \<and> packets_ignored (stats s'')
                      = packets_ignored (stats example_socket) + (if True then 0 else 1)
                  \<and> GetCurrentStatelessResetCounter peer_addr s''
                      = GetCurrentStatelessResetCounter peer_addr example_socket + 1"
      by blast
    moreover have "observe (\<lambda>s. sent_packets (trace s))
        (accept_path lossy_tx_env True NGTCP2_PROTO_VER ?c [] 42
            (dg_buf short_datagram) host_addr peer_addr example_socket) = Some []"
      by (simp add: observe_def model_defs example_defs lossy_tx_env_def Let_def)
    ultimately show ?thesis
      using g by (auto simp: observe_def)
  qed
  from first second third fourth show ?thesis by blast
qed

subsection \<open>A datagram that carries a stateless-reset token\<close>

lemma FindSession_Debug: "FindSession c (Debug m s) = FindSession c s"
  by (simp add: FindSession_def Debug_def cong: option.case_cong)

lemma FindSession_IncrementSocketStat: "FindSession c (IncrementSocketStat k f s) = FindSession c s"
  by (simp add: FindSession_def IncrementSocketStat_def cong: option.case_cong)

text \<open>
  C4, as the spec states it: when no session matches the DCID, the header is short,
  \<open>nread \<ge> 16\<close>, stateless reset is not disabled and the trailing 16 bytes are a known
  token, the datagram is given to that session and processing stops there, whatever
  \<open>Receive\<close> returns. This fails when \<open>Receive\<close> returns false: the socket goes on to
  the accept path (here it is not listening) and answers with a stateless reset.
\<close>

theorem C4_counterexample:
  "observe (\<lambda>s. (map diagnostic_label (sent_packets (trace s)), stateless_reset_count (stats s),
               SessionReceive 7 42 (dg_buf token_datagram) peer_addr \<in> set (trace s),
               DebugMsg ''QuicSocket is not listening'' \<in> set (trace s)))
     (OnReceive rejecting_env 42 (dg_buf token_datagram) host_addr peer_addr token_socket)
   = Some ([''stateless reset''], 1, True, True)
   \<and> token_map token_socket (take 16 (drop (nat 42 - 16) (dg_buf token_datagram))) = Some 7
   \<and> sent_packets (trace token_socket) = []"
  by (simp add: observe_def model_defs example_defs Let_def rejecting_env_def token_socket_def
      token_datagram_def known_token_def)

text \<open>
  C4, amended: under the same conditions the datagram is given to the indexed session's
  \<open>Receive\<close>; when that returns true, processing of the datagram stops there (nothing
  is sent, no packet counter and no reset statistic is charged); when it returns false,
  processing continues with the accept path, and, failing that, with the emission of a
  stateless reset.
\<close>

theorem C4_token_match:
  assumes "\<not> rx_loss_draw e"
    and "pkt_decode_version_cid e buf nread = Some d"
    and "pdcidlen d \<le> NGTCP2_MAX_CIDLEN"
    and "FindSession (pdcid d) s = Inr None"
    and "IsShortHeader (pversion d) (pscid d) (pscidlen d)"
    and "16 \<le> nread"
    and "\<not> stateless_reset_disabled s"
    and "token_map s (take 16 (drop (nat nread - 16) buf)) = Some x"
  shows "(session_Receive e x \<longrightarrow>
            OnReceive e nread buf l r s
              = Inr (Debug ''Handled stateless reset'' (given_to_session x nread buf r s)))
         \<and> (\<not> session_Receive e x \<longrightarrow>
            OnReceive e nread buf l r s
              = accept_path e True (pversion d) (pdcid d) [] nread buf l r
                  (given_to_session x nread buf r s))
         \<and> sent_packets (trace (Debug ''Handled stateless reset'' (given_to_session x nread buf r s)))
             = sent_packets (trace s)
         \<and> charged (Debug ''Handled stateless reset'' (given_to_session x nread buf r s))
             = charged s
         \<and> stateless_reset_count (stats (Debug ''Handled stateless reset'' (given_to_session x nread buf r s)))
             = stateless_reset_count (stats s)"
proof -
  have sc: "pscid d = None" "pscidlen d = 0"
    using assms(5) by (simp_all add: IsShortHeader_def)
  have f: "FindSession (pdcid d) (after_decode nread s) = Inr None"
    using assms(4)
    by (simp only: after_decode_def FindSession_Debug FindSession_IncrementSocketStat)
  have m: "MaybeStatelessReset e (pdcid d) [] nread buf r (reached_reset_check nread s)
             = (session_Receive e x, given_to_session x nread buf r s)"
    using assms(6,7,8)
    by (simp add: MaybeStatelessReset_def Let_def Receive_def given_to_session_def
        reached_reset_check_def after_decode_def Debug_def IncrementSocketStat_def
        NGTCP2_STATELESS_RESET_TOKENLEN_def)
  have f': "FindSession (pdcid d)
             (Debug ''Received a QUIC packet for dcid %s''
                (IncrementSocketStat (as_size_t nread) bytes_received_update
                   (Debug ''Receiving %d bytes from the UDP socket.'' s))) = Inr None"
    using f by (simp only: after_decode_def)
  have o: "OnReceive e nread buf l r s = no_session e d nread buf l r (after_decode nread s)"
    using assms(1,2,3) sc f' by (simp add: OnReceive_def Let_def after_decode_def)
  have n: "no_session e d nread buf l r (after_decode nread s)
           = (if session_Receive e x
              then Inr (Debug ''Handled stateless reset'' (given_to_session x nread buf r s))
              else accept_path e True (pversion d) (pdcid d) [] nread buf l r
                     (given_to_session x nread buf r s))"
    using assms(5) sc m
    by (simp add: no_session_def Let_def QuicCID_def reached_reset_check_def [symmetric])
  show ?thesis
    using o n
    by (simp add: given_to_session_def reached_reset_check_def after_decode_def Debug_def
        emit_def IncrementSocketStat_def sent_packets_append charged_def)
qed

theorem C4_token_match_witness:
  "OnReceive short_env 42 (dg_buf token_datagram) host_addr peer_addr token_socket
     = Inr (Debug ''Handled stateless reset''
              (given_to_session 7 42 (dg_buf token_datagram) peer_addr token_socket))
   \<and> OnReceive rejecting_env 42 (dg_buf token_datagram) host_addr peer_addr token_socket
     = accept_path rejecting_env True NGTCP2_PROTO_VER (replicate 8 0xD1) [] 42
         (dg_buf token_datagram) host_addr peer_addr
         (given_to_session 7 42 (dg_buf token_datagram) peer_addr token_socket)"
proof -
  let ?d = "\<lparr>pversion = NGTCP2_PROTO_VER, pdcid = replicate 8 (0xD1 :: byte), pscid = None\<rparr>"
  have t: "token_map token_socket (take 16 (drop (nat 42 - 16) (dg_buf token_datagram))) = Some 7"
    by (simp add: token_socket_def token_datagram_def known_token_def)
  have f: "FindSession (pdcid ?d) token_socket = Inr None"
    by (simp add: FindSession_def token_socket_def example_defs)
  have h: "IsShortHeader (pversion ?d) (pscid ?d) (pscidlen ?d)"
    "pdcidlen ?d \<le> NGTCP2_MAX_CIDLEN" "\<not> stateless_reset_disabled token_socket"
    by (simp_all add: IsShortHeader_def pscidlen_def pdcidlen_def NGTCP2_MAX_CIDLEN_def
        token_socket_def example_defs)
  have e1: "\<not> rx_loss_draw short_env"
    "pkt_decode_version_cid short_env (dg_buf token_datagram) 42 = Some ?d"
    "session_Receive short_env 7"
    by (simp_all add: example_defs)
  have e2: "\<not> rx_loss_draw rejecting_env"
    "pkt_decode_version_cid rejecting_env (dg_buf token_datagram) 42 = Some ?d"
    "\<not> session_Receive rejecting_env 7"
    by (simp_all add: rejecting_env_def example_defs)
  have a: "(16 :: int) \<le> 42" by simp
  from C4_token_match [OF e1(1) e1(2) h(2) f h(1) a h(3) t, of host_addr peer_addr] e1(3)
    C4_token_match [OF e2(1) e2(2) h(2) f h(1) a h(3) t, of host_addr peer_addr] e2(3)
  show ?thesis by simp
qed

subsection \<open>AcceptInitialPacket\<close>

lemma created_append: "created (xs @ ys) = created xs @ created ys"
  by (induction xs rule: created.induct) simp_all

lemma same_created_refl [simp]: "same_created s s"
  by (simp add: same_created_def)

lemma same_created_trans: "same_created s s1 \<Longrightarrow> same_created s1 s2 \<Longrightarrow> same_created s s2"
  by (simp add: same_created_def)

lemma Debug_created: "same_created s (Debug m s)"
  by (simp add: same_created_def Debug_def created_append)

lemma created_Debug [simp]: "created (trace (Debug m s)) = created (trace s)"
  by (simp add: Debug_def created_append)

lemma SendPacket_created:
  "SendPacket e l r p x s = Inr (err, s') \<Longrightarrow> same_created s s'"
  by (auto simp: SendPacket_def Let_def same_created_def OnSend_def
      IncrementSocketStat_def Debug_def emit_def created_append split: if_splits)

lemma SendVersionNegotiation_created:
  "SendVersionNegotiation e v d c l r s = Inr (u, s') \<Longrightarrow> same_created s s'"
  by (auto simp: SendVersionNegotiation_def Let_def split: sum.splits if_splits
      dest: SendPacket_created)

lemma SendRetry_created:
  "SendRetry e v d c l r s = Inr (u, s') \<Longrightarrow> same_created s s'"
  by (auto simp: SendRetry_def Let_def split: sum.splits if_splits option.splits
      dest: SendPacket_created)

lemma initial_connection_close_created [simp]:
  "created (trace (snd (initial_connection_close r s))) = created (trace s)"
  by (simp add: initial_connection_close_def Let_def)

lemma set_validated_address_created [simp]:
  "created (trace (set_validated_address a s)) = created (trace s)"
  by (simp add: set_validated_address_def Let_def)

lemma create_and_announce_created:
  "create_and_announce e v d c l r oc cc s = Inr (x, s') \<Longrightarrow>
   \<exists>a. created (trace s') = created (trace s) @ [a] \<and> ca_initial_connection_close a = cc
        \<and> ca_ocid a = oc"
  by (auto simp: create_and_announce_def Let_def emit_def created_append)

lemma early_close_value:
  "fst (initial_connection_close r s) =
     (if server_busy s \<or> max_connections_per_host s \<le> GetCurrentSocketAddressCounter r s
      then NGTCP2_SERVER_BUSY else NGTCP2_NO_ERROR)"
  by (simp add: initial_connection_close_def Let_def Debug_def
      GetCurrentSocketAddressCounter_def)

lemma accept_ok_created:
  assumes "accept_ok e h v d c l r s = Inr (x, s')"
  shows "created (trace s') = created (trace s)
         \<or> (\<exists>a. created (trace s') = created (trace s) @ [a]
                \<and> ca_initial_connection_close a = fst (initial_connection_close r s))"
  using assms unfolding accept_ok_def Let_def
  by (auto split: if_splits sum.splits
      dest!: SendRetry_created create_and_announce_created simp: same_created_def)

lemma accept_ok_busy:
  assumes "server_busy s \<or> max_connections_per_host s \<le> GetCurrentSocketAddressCounter r s"
  shows "accept_ok e h v d c l r s
           = Inr (session_CreateServer e (busy_args v d c l r s),
                  emit (ListenerOnSessionReady (session_CreateServer e (busy_args v d c l r s)))
                    (emit (SessionCreateServer (busy_args v d c l r s))
                       (snd (initial_connection_close r s))))"
proof -
  have 1: "fst (initial_connection_close r s) = NGTCP2_SERVER_BUSY"
    using assms by (simp add: early_close_value)
  have 2: "NGTCP2_SERVER_BUSY \<noteq> NGTCP2_NO_ERROR"
    by (simp add: NGTCP2_SERVER_BUSY_def NGTCP2_NO_ERROR_def)
  have 3: "server_alpn (snd (initial_connection_close r s)) = server_alpn s"
    "server_options (snd (initial_connection_close r s)) = server_options s"
    "qlog (snd (initial_connection_close r s)) = qlog s"
    by (simp_all add: initial_connection_close_def Let_def Debug_def)
  show ?thesis
    by (simp add: accept_ok_def Let_def 1 2 3 create_and_announce_def busy_args_def)
qed

text \<open>
  C5. On a listening socket, after the verdict \<open>PACKET_OK\<close>, the early close code is
  \<open>SERVER_BUSY\<close> if and only if the server-busy flag is set or the peer's connection
  count has reached \<open>max_connections_per_host\<close>, and \<open>NO_ERROR\<close> otherwise; every
  \<open>CreateServer\<close> call that \<open>AcceptInitialPacket\<close> makes carries that code; and in the
  \<open>SERVER_BUSY\<close> case address validation is skipped (no original CID, no retry sent,
  the validated addresses untouched) and the server session is still asked for,
  announced and returned.
\<close>

theorem C5_early_close:
  assumes "server_listening s" and "fst (session_Accept e v b n) = PACKET_OK"
  shows "fst (initial_connection_close r s) =
           (if server_busy s \<or> max_connections_per_host s \<le> GetCurrentSocketAddressCounter r s
            then NGTCP2_SERVER_BUSY else NGTCP2_NO_ERROR)
         \<and> NGTCP2_SERVER_BUSY \<noteq> NGTCP2_NO_ERROR
         \<and> (\<forall>x s'. AcceptInitialPacket e v d c n b l r s = Inr (x, s') \<longrightarrow>
               created (trace s') = created (trace s)
               \<or> (\<exists>a. created (trace s') = created (trace s) @ [a]
                      \<and> ca_initial_connection_close a = fst (initial_connection_close r s)))
         \<and> (server_busy s \<or> max_connections_per_host s \<le> GetCurrentSocketAddressCounter r s \<longrightarrow>
              AcceptInitialPacket e v d c n b l r s
                = Inr (session_CreateServer e (busy_args v d c l r s),
                       emit (ListenerOnSessionReady (session_CreateServer e (busy_args v d c l r s)))
                         (emit (SessionCreateServer (busy_args v d c l r s))
                            (snd (initial_connection_close r s))))
              \<and> sent_packets (trace (snd (initial_connection_close r s))) = sent_packets (trace s)
              \<and> validated_addrs (snd (initial_connection_close r s)) = validated_addrs s)"
proof -
  have A: "AcceptInitialPacket e v d c n b l r s
             = accept_ok e (snd (session_Accept e v b n)) v d c l r s"
    using assms by (simp add: AcceptInitialPacket_def)
  have 2: "NGTCP2_SERVER_BUSY \<noteq> NGTCP2_NO_ERROR"
    by (simp add: NGTCP2_SERVER_BUSY_def NGTCP2_NO_ERROR_def)
  have 3: "sent_packets (trace (snd (initial_connection_close r s))) = sent_packets (trace s)"
    "validated_addrs (snd (initial_connection_close r s)) = validated_addrs s"
    by (simp_all add: initial_connection_close_def Let_def Debug_def sent_packets_append)
  show ?thesis
    unfolding A
    using early_close_value [of r s] 2 3 accept_ok_created [of e _ v d c l r s]
      accept_ok_busy [of s r e _ v d c l]
    by (intro conjI allI impI) blast+
qed

theorem C5_early_close_witness:
  "fst (initial_connection_close peer_addr crowded_socket) = NGTCP2_SERVER_BUSY
   \<and> observe_result (\<lambda>s. (created (trace s), sent_packets (trace s), validated_addrs s))
        (AcceptInitialPacket initial_env NGTCP2_PROTO_VER (replicate 8 0xAA) (replicate 8 0xBB)
           1252 long_header_buf host_addr peer_addr crowded_socket)
     = Some (Some 1,
             [busy_args NGTCP2_PROTO_VER (replicate 8 0xAA) (replicate 8 0xBB) host_addr peer_addr
                crowded_socket], [], [])
   \<and> fst (initial_connection_close peer_addr listening_socket) = NGTCP2_NO_ERROR
   \<and> observe_result (\<lambda>s. map ca_initial_connection_close (created (trace s)))
        (AcceptInitialPacket initial_env NGTCP2_PROTO_VER (replicate 8 0xAA) (replicate 8 0xBB)
           1252 long_header_buf host_addr peer_addr listening_socket)
     = Some (Some 1, [NGTCP2_NO_ERROR])"
proof -
  let ?A = "\<lambda>s. AcceptInitialPacket initial_env NGTCP2_PROTO_VER (replicate 8 0xAA)
              (replicate 8 0xBB) 1252 long_header_buf host_addr peer_addr s"
  have l: "server_listening crowded_socket" "server_listening listening_socket"
    by (simp_all add: crowded_socket_def listening_socket_def)
  have a: "fst (session_Accept initial_env NGTCP2_PROTO_VER long_header_buf 1252) = PACKET_OK"
    by (simp add: initial_env_def example_env_def)
  have c: "max_connections_per_host crowded_socket
             \<le> GetCurrentSocketAddressCounter peer_addr crowded_socket"
    "\<not> server_busy listening_socket"
    "\<not> max_connections_per_host listening_socket
         \<le> GetCurrentSocketAddressCounter peer_addr listening_socket"
    by (simp_all add: crowded_socket_def example_defs GetCurrentSocketAddressCounter_def)
  note T1 = C5_early_close [OF l(1) a, of peer_addr "replicate 8 0xAA" "replicate 8 0xBB" host_addr]
  note T2 = C5_early_close [OF l(2) a, of peer_addr "replicate 8 0xAA" "replicate 8 0xBB" host_addr]
  have 1: "fst (initial_connection_close peer_addr crowded_socket) = NGTCP2_SERVER_BUSY"
    using T1 c(1) by simp
  have 2: "observe_result (\<lambda>s. (created (trace s), sent_packets (trace s), validated_addrs s))
        (?A crowded_socket)
     = Some (Some 1,
             [busy_args NGTCP2_PROTO_VER (replicate 8 0xAA) (replicate 8 0xBB) host_addr peer_addr
                crowded_socket], [], [])"
  proof -
    from T1 c(1) have "?A crowded_socket
                = Inr (session_CreateServer initial_env
                         (busy_args NGTCP2_PROTO_VER (replicate 8 0xAA) (replicate 8 0xBB)
                            host_addr peer_addr crowded_socket),
                       emit (ListenerOnSessionReady (session_CreateServer initial_env
                         (busy_args NGTCP2_PROTO_VER (replicate 8 0xAA) (replicate 8 0xBB)
                            host_addr peer_addr crowded_socket)))
                         (emit (SessionCreateServer
                            (busy_args NGTCP2_PROTO_VER (replicate 8 0xAA) (replicate 8 0xBB)
                               host_addr peer_addr crowded_socket))
                            (snd (initial_connection_close peer_addr crowded_socket))))"
      by blast
    then show ?thesis
      by (simp add: observe_result_def emit_def created_append sent_packets_append
          initial_connection_close_def Let_def Debug_def initial_env_def example_env_def)
         (simp add: crowded_socket_def example_defs)
  qed
  have 3: "fst (initial_connection_close peer_addr listening_socket) = NGTCP2_NO_ERROR"
    using T2 c(2,3) by simp
  have 4: "observe_result (\<lambda>s. map ca_initial_connection_close (created (trace s)))
        (?A listening_socket) = Some (Some 1, [NGTCP2_NO_ERROR])"
    by (simp add: observe_result_def model_defs example_defs initial_env_def Let_def)
  from 1 2 3 4 show ?thesis by simp
qed

text \<open>
  What the listener hears from \<open>AcceptInitialPacket\<close>: nothing, when nothing is
  returned before the session class is asked; otherwise exactly what is returned.
\<close>

lemma announced_append: "announced (xs @ ys) = announced xs @ announced ys"
  by (induction xs rule: announced.induct) simp_all

lemma announced_Debug [simp]: "announced (trace (Debug m s)) = announced (trace s)"
  by (simp add: Debug_def announced_append)

lemma SendPacket_announced:
  "SendPacket e l r p x s = Inr (err, s') \<Longrightarrow> announced (trace s') = announced (trace s)"
  by (auto simp: SendPacket_def Let_def OnSend_def
      IncrementSocketStat_def Debug_def emit_def announced_append split: if_splits)

lemma SendVersionNegotiation_announced:
  "SendVersionNegotiation e v d c l r s = Inr (u, s') \<Longrightarrow>
   announced (trace s') = announced (trace s)"
  by (auto simp: SendVersionNegotiation_def Let_def split: sum.splits if_splits
      dest: SendPacket_announced)

lemma SendRetry_announced:
  "SendRetry e v d c l r s = Inr (u, s') \<Longrightarrow> announced (trace s') = announced (trace s)"
  by (auto simp: SendRetry_def Let_def split: sum.splits if_splits option.splits
      dest: SendPacket_announced)

lemma initial_connection_close_announced [simp]:
  "announced (trace (snd (initial_connection_close r s))) = announced (trace s)"
  by (simp add: initial_connection_close_def Let_def)

lemma set_validated_address_announced [simp]:
  "announced (trace (set_validated_address a s)) = announced (trace s)"
  by (simp add: set_validated_address_def Let_def)

lemma create_and_announce_announced:
  "create_and_announce e v d c l r oc cc s = Inr (x, s') \<Longrightarrow>
   announced (trace s') = announced (trace s) @ [x]"
  by (auto simp: create_and_announce_def Let_def emit_def announced_append)

lemma accept_ok_announced:
  assumes "accept_ok e h v d c l r s = Inr (x, s')"
  shows "(x = None \<and> announced (trace s') = announced (trace s))
         \<or> announced (trace s') = announced (trace s) @ [x]"
  using assms unfolding accept_ok_def Let_def
  by (auto split: if_splits sum.splits
      dest!: SendRetry_announced create_and_announce_announced)

lemma AcceptInitialPacket_announced:
  assumes "AcceptInitialPacket e v d c n b l r s = Inr (x, s')"
  shows "(x = None \<and> announced (trace s') = announced (trace s))
         \<or> announced (trace s') = announced (trace s) @ [x]"
  using assms unfolding AcceptInitialPacket_def
  by (auto split: if_splits sum.splits InitialPacketResult.splits
      dest!: SendRetry_announced SendVersionNegotiation_announced accept_ok_announced)

text \<open>
  C3. The spec has \<open>session_ready\<close> raised if and only if \<open>accept_initial\<close> yields a
  session. The code calls \<open>OnSessionReady\<close> with whatever \<open>CreateServer\<close> returned:
  when the session class cannot build a session, \<open>AcceptInitialPacket\<close> returns nothing
  and the listener is still called, with the empty session.
\<close>

theorem C3_session_ready_without_session:
  "observe_result (\<lambda>s. announced (trace s))
     (AcceptInitialPacket failing_factory_env NGTCP2_PROTO_VER (replicate 8 0xAA)
        (replicate 8 0xBB) 1252 long_header_buf host_addr peer_addr listening_socket)
   = Some (None, [None])
   \<and> announced (trace listening_socket) = []"
  by (simp add: observe_result_def model_defs example_defs initial_env_def
      failing_factory_env_def Let_def)

subsection \<open>Version negotiation\<close>

text \<open>
  The packet that \<open>SendVersionNegotiation\<close> sends, if it sends one: the CIDs in the
  order received, and the two versions.
\<close>

lemma SendVersionNegotiation_sent:
  assumes "SendVersionNegotiation e v d c l r s = Inr (u, s')"
  shows "sent_packets (trace s') = sent_packets (trace s)
         \<or> (\<exists>p. sent_packets (trace s') = sent_packets (trace s) @ [p]
                \<and> content p = VersionNegotiation (entropy_byte e) d c
                                 [GenerateReservedVersion r v, NGTCP2_PROTO_VER])"
  using assms unfolding SendVersionNegotiation_def Let_def
  by (auto split: sum.splits if_splits dest!: SendPacket_sent
      simp: QuicPacket_Create_def set_length_def)

text \<open>
  C2. The spec has the version negotiation packet carry the received SCID as its
  destination CID and the received DCID as its source CID. The code hands the received
  DCID to the encoder as the packet's destination CID and the received SCID as its source
  CID: for a datagram with DCID \<open>AA\<dots>\<close> and SCID \<open>BB\<dots>\<close> in version \<open>0x01020304\<close>
  the packet sent has destination CID \<open>AA\<dots>\<close> and source CID \<open>BB\<dots>\<close>. Its version
  list is the reserved version followed by \<open>PROTO_VER\<close>, as the spec says.
\<close>

theorem C2_version_negotiation_not_swapped:
  "observe (\<lambda>s. map content (sent_packets (trace s)))
     (OnReceive other_version_env 1252 long_header_buf host_addr peer_addr listening_socket)
   = Some [VersionNegotiation 0x5A (replicate 8 0xAA) (replicate 8 0xBB)
             [GenerateReservedVersion peer_addr 0x01020304, NGTCP2_PROTO_VER]]
   \<and> pkt_decode_version_cid other_version_env long_header_buf 1252
       = Some \<lparr>pversion = 0x01020304, pdcid = replicate 8 0xAA, pscid = Some (replicate 8 0xBB)\<rparr>
   \<and> replicate 8 (0xAA :: byte) \<noteq> replicate 8 0xBB"
  by (simp add: observe_def model_defs example_env_def example_socket_def new_QuicSocket_def
      listening_socket_def kTokenSecretLen_def other_version_env_def Let_def)

end
